theory Spec2Isabelle
  imports Main
begin

section \<open>Exceptions\<close>

text \<open>
  Python exceptions are values. The constructors are the exception classes that the three
  source files raise or catch by name; \<open>OtherError cls msg\<close> stands for an instance of any
  other class. An instance of a subclass is represented by the nearest class listed here.

  The guards \<open>runnable.mount_method\<close> and \<open>runnable.build_method\<close> live in a module that
  is not among the sources; the failures they raise are called \<open>NotMounted\<close> and
  \<open>NotBuilt\<close>, the names the specification gives them.
\<close>

datatype exc =
    RuntimeError string
  | AssertionError string
  | ValueError string
  | KeyError string
  | AttributeError string
  | UnicodeDecodeError string
  | UnicodeEncodeError string
  | PyVersionError string
  | ExtensionNotRequired string
  | NotMounted
  | NotBuilt
  | OtherError string string

text \<open>
  User code (a setup callback, a layer hook, a case group) runs on a world \<open>'w\<close> that the
  framework does not look into. It returns the world it leaves behind together with the
  exception it raised, if any: what a Python callable did before raising stays done.
\<close>

type_synonym 'w action = "'w \<Rightarrow> exc option \<times> 'w"

section \<open>suite.py: BuildRule\<close>

text \<open>
  \<open>BuildRule(suite_name, case_name=None, test_name=None)\<close>. The suite name is the required
  positional argument, a string; the two optional names are \<open>None\<close> or a string.
\<close>

record BuildRule =
  suite_name :: string
  case_name :: "string option"
  test_name :: "string option"

text \<open>Python truthiness of an optional string: \<open>None\<close> and \<open>''\<close> are false.\<close>

definition truthy :: "string option \<Rightarrow> bool" where
  "truthy v = (case v of None \<Rightarrow> False | Some s \<Rightarrow> s \<noteq> [])"

text \<open>\<open>'{}'.format(v)\<close> of an optional string that is known to be truthy.\<close>

definition fmt :: "string option \<Rightarrow> string" where
  "fmt v = (case v of None \<Rightarrow> ''None'' | Some s \<Rightarrow> s)"

text \<open>
  \<open>BuildRule.__str__\<close>, lines 48 to 59. The first format call passes the case name for
  both the second and the third placeholder.
\<close>

definition BuildRule_str :: "BuildRule \<Rightarrow> string" where
  "BuildRule_str r =
     (if suite_name r \<noteq> [] \<and> truthy (case_name r) \<and> truthy (test_name r)
      then suite_name r @ '':'' @ fmt (case_name r) @ ''.'' @ fmt (case_name r)
      else if suite_name r \<noteq> [] \<and> truthy (case_name r)
      then suite_name r @ '':'' @ fmt (case_name r)
      else suite_name r)"

section \<open>suite.py: layers, context and suite\<close>

text \<open>
  The configuration object of the program the suite is mounted to; \<open>_make_group\<close> reads
  three flags of it.
\<close>

record config =
  GEVENT :: bool
  THREADING :: bool
  MULTIPROCESSING :: bool

text \<open>
  A \<open>SuiteLayer\<close>: the enabled flag and the hooks that \<open>mount_to\<close> and \<open>run\<close> broadcast
  to. The \<open>on_error\<close> hook is given the error.
\<close>

record 'w SuiteLayer =
  enabled :: bool
  on_setup :: "'w action"
  on_teardown :: "'w action"
  on_mount :: "'w action"
  on_run :: "'w action"
  on_error :: "exc \<Rightarrow> 'w action"

text \<open>
  \<open>SuiteContext\<close>. The dictionary of resolved extensions is a map; \<open>'x\<close> is the type of
  an extension instance.
\<close>

record ('w, 'x) SuiteContext =
  layers :: "'w SuiteLayer list"
  require :: "string list"
  extensions :: "string \<rightharpoonup> 'x"
  build_rules :: "BuildRule list"
  setup_callbacks :: "'w action list"
  teardown_callbacks :: "'w action list"

text \<open>
  \<open>Suite\<close>. \<open>'k\<close> is the type of a registered case class, \<open>'c\<close> of a built case
  instance, \<open>'g\<close> of a class given as \<open>__case_group_class__\<close>. \<open>mount_data\<close> is
  \<open>__mount_data__\<close>: \<open>None\<close>, or the \<open>MountData\<close> holding the program's configuration.
  \<open>class_name\<close> is \<open>self.__class__.__name__\<close> and \<open>class_mro\<close> the names of the classes
  the suite is an instance of. \<open>stopped\<close> is the marker \<open>runnable.stopped_on\<close> leaves.
\<close>

record ('w, 'x, 'k, 'c, 'g) Suite =
  name :: string
  class_name :: string
  class_mro :: "string list"
  case_group_class :: "'g option"
  is_run :: bool
  is_build :: bool
  case_classes :: "'k list"
  case_instances :: "'c list"
  mount_data :: "config option"
  suite_context :: "('w, 'x) SuiteContext"
  stopped :: "string option"

text \<open>\<open>BuildRule.is_of\<close>, lines 81 and 82.\<close>

definition is_of :: "BuildRule \<Rightarrow> ('w, 'x, 'k, 'c, 'g) Suite \<Rightarrow> bool" where
  "is_of r s = (suite_name r = name s)"

text \<open>
  \<open>Suite.assign_build_rule\<close>, lines 403 to 412. The \<open>assert\<close> raises \<open>AssertionError\<close>
  with the formatted message; \<open>build_rules.append\<close> adds the rule at the end.
\<close>

definition assign_build_rule ::
  "BuildRule \<Rightarrow> ('w, 'x, 'k, 'c, 'g) Suite \<Rightarrow> exc + ('w, 'x, 'k, 'c, 'g) Suite" where
  "assign_build_rule r s =
     (if \<not> is_of r s
      then Inl (AssertionError (''Build rule is not of this suite '' @ BuildRule_str r))
      else if truthy (case_name r)
      then Inr (s\<lparr>suite_context :=
             (suite_context s)\<lparr>build_rules := build_rules (suite_context s) @ [r]\<rparr>\<rparr>)
      else Inr s)"

section \<open>runnable.py: the lifecycle guards\<close>

text \<open>
  Modelled from the spec: \<open>runnable.is_mount\<close> is not among the sources. The
  specification, section 4.5: a helper determines whether a runnable object has
  completed its mount phase. The predicate itself is in the source: \<open>Suite.__is_mount__\<close>
  tests \<open>__mount_data__\<close> for a \<open>MountData\<close>.
\<close>

definition is_mount :: "('w, 'x, 'k, 'c, 'g) Suite \<Rightarrow> bool" where
  "is_mount s = (mount_data s \<noteq> None)"

text \<open>
  Modelled from the spec: the decorator \<open>runnable.mount_method\<close> is not among the sources.
  The specification, section 4.5: an operation tagged as requiring mount fails with
  NotMounted if invoked before the object's mount predicate is true. The value is the
  failure of the guard, if any.
\<close>

definition mount_method :: "('w, 'x, 'k, 'c, 'g) Suite \<Rightarrow> exc option" where
  "mount_method s = (if is_mount s then None else Some NotMounted)"

text \<open>
  Modelled from the spec: the decorator \<open>runnable.build_method\<close> is not among the sources.
  The specification, section 4.5: an operation tagged as requiring build fails with
  NotBuilt if invoked before the object's build predicate is true. The predicate is in
  the source: \<open>Suite.__is_build__\<close> reads the flag.
\<close>

definition build_method :: "('w, 'x, 'k, 'c, 'g) Suite \<Rightarrow> exc option" where
  "build_method s = (if is_build s then None else Some NotBuilt)"

text \<open>The property \<open>Suite.config\<close>, lines 350 to 353: mount-guarded.\<close>

definition config_of :: "('w, 'x, 'k, 'c, 'g) Suite \<Rightarrow> exc + config" where
  "config_of s = (case mount_data s of None \<Rightarrow> Inl NotMounted | Some c \<Rightarrow> Inr c)"

section \<open>utils/pyv.py\<close>

text \<open>
  \<open>check_gevent_supported\<close>, lines 27 to 29. \<open>IS_PYTHON_3\<close> is fixed when the module is
  imported, from the running interpreter; it is a parameter here.
\<close>

definition check_gevent_supported :: "bool \<Rightarrow> exc option" where
  "check_gevent_supported IS_PYTHON_3 =
     (if IS_PYTHON_3 then Some (PyVersionError ''gevent lib not supported with python 3'')
      else None)"

text \<open>
  \<open>unicode_string\<close>, lines 78 to 85, calls two operations of the interpreter: the builtin
  \<open>unicode\<close>, and the method \<open>decode\<close> of its argument with \<open>'utf-8'\<close>. Both are
  parameters: \<open>'v\<close> is the type of Python values, \<open>'t\<close> of texts. Looking up \<open>decode\<close> on
  a value that has no such attribute is the \<open>AttributeError\<close> of \<open>decode_utf8\<close>.
\<close>

record ('v, 't) builtins =
  unicode :: "'v \<Rightarrow> exc + 't"
  decode_utf8 :: "'v \<Rightarrow> exc + 'v"

definition is_UnicodeDecodeError :: "exc \<Rightarrow> bool" where
  "is_UnicodeDecodeError e = (case e of UnicodeDecodeError _ \<Rightarrow> True | _ \<Rightarrow> False)"

definition is_AttributeError :: "exc \<Rightarrow> bool" where
  "is_AttributeError e = (case e of AttributeError _ \<Rightarrow> True | _ \<Rightarrow> False)"

text \<open>The inner \<open>try\<close> body: \<open>unicode(string.decode('utf-8'))\<close>.\<close>

definition retry_decode :: "('v, 't) builtins \<Rightarrow> 'v \<Rightarrow> exc + 't" where
  "retry_decode b s = (case decode_utf8 b s of Inl e \<Rightarrow> Inl e | Inr d \<Rightarrow> unicode b d)"

definition unicode_string :: "('v, 't) builtins \<Rightarrow> 'v \<Rightarrow> exc + 't" where
  "unicode_string b s =
     (case unicode b s of
        Inr t \<Rightarrow> Inr t
      | Inl e \<Rightarrow>
          if is_UnicodeDecodeError e
          then (case retry_decode b s of
                  Inr t \<Rightarrow> Inr t
                | Inl e' \<Rightarrow> if is_AttributeError e' then Inl e else Inl e')
          else Inl e)"

subsection \<open>The two operations in Python 2\<close>

text \<open>
  What \<open>unicode\<close> and \<open>decode\<close> do in the Python 2 interpreter, for three kinds of value: a
  byte string, a unicode string (its code points), and an object that has no \<open>decode\<close>
  attribute and whose conversion to text yields the given result. \<open>unicode\<close> of a byte
  string decodes it with the \<open>ascii\<close> codec; \<open>decode('utf-8')\<close> of a byte string decodes
  UTF-8, and of a unicode string first encodes it with the \<open>ascii\<close> codec.
\<close>

datatype pyval = PyStr string | PyUnicode "nat list" | PyObject "exc + nat list"

definition ascii_decode :: "string \<Rightarrow> exc + nat list" where
  "ascii_decode bs =
     (if list_all (\<lambda>c. (of_char c :: nat) < 128) bs then Inr (map of_char bs)
      else Inl (UnicodeDecodeError ''ascii''))"

definition cont :: "char \<Rightarrow> bool" where
  "cont c = (128 \<le> (of_char c :: nat) \<and> (of_char c :: nat) < 192)"

definition low6 :: "char \<Rightarrow> nat" where
  "low6 c = of_char c mod 64"

definition decoded :: "nat \<Rightarrow> exc + nat list \<Rightarrow> exc + nat list" where
  "decoded cp r = (case r of Inl e \<Rightarrow> Inl e | Inr cps \<Rightarrow> Inr (cp # cps))"

fun utf8_decode :: "string \<Rightarrow> exc + nat list" where
  "utf8_decode [] = Inr []"
| "utf8_decode (c # bs) =
     (let b = (of_char c :: nat) in
      if b < 128 then decoded b (utf8_decode bs)
      else if 194 \<le> b \<and> b < 224 then
        (case bs of
           c1 # r \<Rightarrow>
             if cont c1 then decoded ((b mod 32) * 64 + low6 c1) (utf8_decode r)
             else Inl (UnicodeDecodeError ''utf8'')
         | _ \<Rightarrow> Inl (UnicodeDecodeError ''utf8''))
      else if 224 \<le> b \<and> b < 240 then
        (case bs of
           c1 # c2 # r \<Rightarrow>
             if cont c1 \<and> cont c2 \<and> (if b = 224 then 160 \<le> (of_char c1 :: nat) else True)
             then decoded ((b mod 16) * 4096 + low6 c1 * 64 + low6 c2) (utf8_decode r)
             else Inl (UnicodeDecodeError ''utf8'')
         | _ \<Rightarrow> Inl (UnicodeDecodeError ''utf8''))
      else if 240 \<le> b \<and> b < 245 then
        (case bs of
           c1 # c2 # c3 # r \<Rightarrow>
             if cont c1 \<and> cont c2 \<and> cont c3
                \<and> (if b = 240 then 144 \<le> (of_char c1 :: nat) else True)
                \<and> (if b = 244 then (of_char c1 :: nat) < 144 else True)
             then decoded ((b mod 8) * 262144 + low6 c1 * 4096 + low6 c2 * 64 + low6 c3)
                    (utf8_decode r)
             else Inl (UnicodeDecodeError ''utf8'')
         | _ \<Rightarrow> Inl (UnicodeDecodeError ''utf8''))
      else Inl (UnicodeDecodeError ''utf8''))"

definition python2 :: "(pyval, nat list) builtins" where
  "python2 =
     \<lparr>unicode = (\<lambda>v. case v of
          PyStr bs \<Rightarrow> ascii_decode bs
        | PyUnicode cps \<Rightarrow> Inr cps
        | PyObject r \<Rightarrow> r),
      decode_utf8 = (\<lambda>v. case v of
          PyStr bs \<Rightarrow> (case utf8_decode bs of Inl e \<Rightarrow> Inl e | Inr cps \<Rightarrow> Inr (PyUnicode cps))
        | PyUnicode cps \<Rightarrow>
            if list_all (\<lambda>cp. cp < 128) cps then Inr (PyUnicode cps)
            else Inl (UnicodeEncodeError ''ascii'')
        | PyObject r \<Rightarrow> Inl (AttributeError ''decode''))\<rparr>"

section \<open>suite.py: choosing the case group\<close>

text \<open>
  The four kinds of group \<open>_make_group\<close> can construct, each from the built case
  instances and the configuration. The classes themselves are in \<open>groups/\<close>, outside
  the sources.
\<close>

datatype ('c, 'g) CaseGroup =
    CustomCaseGroup 'g "'c list" config
  | GeventCaseGroup "'c list" config
  | ThreadingCaseGroup "'c list" config
  | DefaultCaseGroup "'c list" config

text \<open>
  \<open>Suite._make_group\<close>, lines 363 to 387. Every branch reads \<open>self.config\<close>, which is
  mount-guarded. A class is a true value, so \<open>if self.__case_group_class__\<close> tests for
  \<open>None\<close>.
\<close>

definition make_group ::
  "bool \<Rightarrow> ('w, 'x, 'k, 'c, 'g) Suite \<Rightarrow> exc + ('c, 'g) CaseGroup" where
  "make_group IS_PYTHON_3 s =
     (case case_group_class s of
        Some cls \<Rightarrow>
          (case config_of s of
             Inl e \<Rightarrow> Inl e
           | Inr cfg \<Rightarrow> Inr (CustomCaseGroup cls (case_instances s) cfg))
      | None \<Rightarrow>
          (case config_of s of
             Inl e \<Rightarrow> Inl e
           | Inr cfg \<Rightarrow>
               if GEVENT cfg then
                 (case check_gevent_supported IS_PYTHON_3 of
                    Some e \<Rightarrow> Inl e
                  | None \<Rightarrow> Inr (GeventCaseGroup (case_instances s) cfg))
               else if THREADING cfg \<or> MULTIPROCESSING cfg
               then Inr (ThreadingCaseGroup (case_instances s) cfg)
               else Inr (DefaultCaseGroup (case_instances s) cfg)))"

section \<open>suite.py: ext\<close>

text \<open>
  \<open>Suite.ext\<close>, lines 414 to 419, build-guarded. \<open>dict.get\<close> returns \<open>None\<close> for a key
  the dictionary does not have, so the value returned is an optional instance.
\<close>

definition ext :: "('w, 'x, 'k, 'c, 'g) Suite \<Rightarrow> string \<Rightarrow> exc + 'x option" where
  "ext s n =
     (case build_method s of
        Some e \<Rightarrow> Inl e
      | None \<Rightarrow>
          if n \<notin> set (require (suite_context s)) then Inl (ExtensionNotRequired n)
          else Inr (extensions (suite_context s) n))"

section \<open>suite.py: build\<close>

text \<open>
  What \<open>build\<close> calls outside the sources: \<open>extensions.get\<close> of the process-wide
  registry and the two functions of \<open>loader\<close>. Each returns a value or raises.
  \<open>load_tests_from_case\<close> is given the case class, the configuration, the method name
  and the extensions of the context.
\<close>

record ('w, 'x, 'k, 'c, 'g) loader =
  extensions_get :: "string \<Rightarrow> exc + 'x"
  load_case_from_suite :: "string \<Rightarrow> ('w, 'x, 'k, 'c, 'g) Suite \<Rightarrow> exc + 'k"
  load_tests_from_case ::
    "'k \<Rightarrow> config \<Rightarrow> string option \<Rightarrow> (string \<rightharpoonup> 'x) \<Rightarrow> exc + 'c list"

text \<open>
  \<open>SuiteContext.install_extensions\<close>, lines 184 to 187: the loop over the required
  names. A failing \<open>extensions.get\<close> leaves the names resolved before it in place.
\<close>

fun install_extensions ::
  "(string \<Rightarrow> exc + 'x) \<Rightarrow> string list \<Rightarrow> (string \<rightharpoonup> 'x) \<Rightarrow> exc option \<times> (string \<rightharpoonup> 'x)" where
  "install_extensions get [] m = (None, m)"
| "install_extensions get (ext_name # rest) m =
     (case m ext_name of
        Some _ \<Rightarrow> install_extensions get rest m
      | None \<Rightarrow>
          (case get ext_name of
             Inl e \<Rightarrow> (Some e, m)
           | Inr x \<Rightarrow> install_extensions get rest (m(ext_name \<mapsto> x))))"

text \<open>
  One \<open>self.__case_instances.extend(loader.load_tests_from_case(cls, ...))\<close>, reading
  \<open>self.config\<close> for the argument.
\<close>

definition extend_instances ::
  "('w, 'x, 'k, 'c, 'g) loader \<Rightarrow> 'k \<Rightarrow> string option \<Rightarrow> ('w, 'x, 'k, 'c, 'g) Suite
     \<Rightarrow> exc option \<times> ('w, 'x, 'k, 'c, 'g) Suite" where
  "extend_instances ld cls method_name s =
     (case config_of s of
        Inl e \<Rightarrow> (Some e, s)
      | Inr cfg \<Rightarrow>
          (case load_tests_from_case ld cls cfg method_name (extensions (suite_context s)) of
             Inl e \<Rightarrow> (Some e, s)
           | Inr boxes \<Rightarrow> (None, s\<lparr>case_instances := case_instances s @ boxes\<rparr>)))"

text \<open>The \<open>for cls in self.__case_classes\<close> loop of \<open>__build__\<close>.\<close>

fun build_classes ::
  "('w, 'x, 'k, 'c, 'g) loader \<Rightarrow> 'k list \<Rightarrow> ('w, 'x, 'k, 'c, 'g) Suite
     \<Rightarrow> exc option \<times> ('w, 'x, 'k, 'c, 'g) Suite" where
  "build_classes ld [] s = (None, s)"
| "build_classes ld (cls # rest) s =
     (case extend_instances ld cls None s of
        (Some e, s') \<Rightarrow> (Some e, s')
      | (None, s') \<Rightarrow> build_classes ld rest s')"

text \<open>\<open>Suite.__build__\<close>, lines 320 to 344.\<close>

definition build_cases ::
  "('w, 'x, 'k, 'c, 'g) loader \<Rightarrow> string option \<Rightarrow> string option
     \<Rightarrow> ('w, 'x, 'k, 'c, 'g) Suite \<Rightarrow> exc option \<times> ('w, 'x, 'k, 'c, 'g) Suite" where
  "build_cases ld cn tn s =
     (if truthy cn then
        (case load_case_from_suite ld (fmt cn) s of
           Inl e \<Rightarrow> (Some e, s)
         | Inr cls \<Rightarrow> extend_instances ld cls tn s)
      else build_classes ld (case_classes s) s)"

text \<open>The \<open>for rule in self.__context.build_rules\<close> loop of \<open>build\<close>.\<close>

fun build_by_rules ::
  "('w, 'x, 'k, 'c, 'g) loader \<Rightarrow> BuildRule list \<Rightarrow> ('w, 'x, 'k, 'c, 'g) Suite
     \<Rightarrow> exc option \<times> ('w, 'x, 'k, 'c, 'g) Suite" where
  "build_by_rules ld [] s = (None, s)"
| "build_by_rules ld (rule # rest) s =
     (case build_cases ld (case_name rule) (test_name rule) s of
        (Some e, s') \<Rightarrow> (Some e, s')
      | (None, s') \<Rightarrow> build_by_rules ld rest s')"

text \<open>
  \<open>Suite.build\<close>, lines 502 to 528, mount-guarded. \<open>shuffle\<close> is \<open>None\<close> or a function
  that reorders the list in place and may raise. The message of the \<open>RuntimeError\<close>
  names the class of the suite.
\<close>

definition already_built :: "('w, 'x, 'k, 'c, 'g) Suite \<Rightarrow> exc" where
  "already_built s = RuntimeError (''Suite '' @ [CHR 0x22] @ class_name s @ [CHR 0x22] @ '' is already built'')"

definition build ::
  "('w, 'x, 'k, 'c, 'g) loader \<Rightarrow> string option \<Rightarrow> string option
     \<Rightarrow> ('c list \<Rightarrow> exc option \<times> 'c list) option
     \<Rightarrow> ('w, 'x, 'k, 'c, 'g) Suite \<Rightarrow> exc option \<times> ('w, 'x, 'k, 'c, 'g) Suite" where
  "build ld cn tn shuffle s =
     (case mount_method s of
        Some e \<Rightarrow> (Some e, s)
      | None \<Rightarrow>
          if is_build s then (Some (already_built s), s)
          else
            (case install_extensions (extensions_get ld) (require (suite_context s))
                    (extensions (suite_context s)) of
               (Some e, m) \<Rightarrow> (Some e, s\<lparr>suite_context := (suite_context s)\<lparr>extensions := m\<rparr>\<rparr>)
             | (None, m) \<Rightarrow>
                 (case (let s1 = s\<lparr>suite_context := (suite_context s)\<lparr>extensions := m\<rparr>\<rparr> in
                        if build_rules (suite_context s1) \<noteq> [] \<and> \<not> truthy cn
                        then build_by_rules ld (build_rules (suite_context s1)) s1
                        else build_cases ld cn tn s1) of
                    (Some e, s2) \<Rightarrow> (Some e, s2)
                  | (None, s2) \<Rightarrow>
                      (case shuffle of
                         None \<Rightarrow> (None, s2\<lparr>is_build := True\<rparr>)
                       | Some f \<Rightarrow>
                           (case f (case_instances s2) of
                              (Some e, boxes) \<Rightarrow> (Some e, s2\<lparr>case_instances := boxes\<rparr>)
                            | (None, boxes) \<Rightarrow>
                                (None, s2\<lparr>case_instances := boxes, is_build := True\<rparr>))))))"

section \<open>suite.py: broadcasts to the layers\<close>

text \<open>
  The module-level state and the collaborators that \<open>mount_to\<close> and \<open>run\<close> reach:
  \<open>DEFAULT_LAYERS\<close> and \<open>MATCH_SUITE_TO_LAYER\<close> (the dictionary as a list of pairs of a
  suite class, by name, and its layer), the tuple \<open>ALLOW_RAISED_EXCEPTIONS\<close> of
  \<open>exceptions.py\<close> as the predicate "is an instance of one of them", what calling a case
  group does, \<open>traceback.format_exc\<close>, and the clock that \<open>measure_time\<close> reads, in
  ticks. \<open>stop_after_failed_start\<close> says whether the scoped context of
  \<open>runnable.ContextOfRunnableObject\<close> still runs \<open>stop_context\<close> when \<open>start_context\<close>
  has raised; the specification does not settle it, so both are covered.
\<close>

record ('w, 'c, 'g) runtime =
  IS_PYTHON_3 :: bool
  ALLOW_RAISED_EXCEPTIONS :: "exc \<Rightarrow> bool"
  DEFAULT_LAYERS :: "'w SuiteLayer list"
  MATCH_SUITE_TO_LAYER :: "(string \<times> 'w SuiteLayer) list"
  call_group :: "('c, 'g) CaseGroup \<Rightarrow> 'w action"
  format_exc :: "exc \<Rightarrow> string"
  clock :: "'w \<Rightarrow> int"
  stop_after_failed_start :: bool

text \<open>
  The \<open>Result\<close>: the flag \<open>current_state.should_stop\<close> and the errors recorded through
  a proxy, each the suite (by name), the formatted trace, the duration and the error.
\<close>

record Result =
  should_stop :: bool
  errors :: "(string \<times> string \<times> int \<times> exc) list"

text \<open>
  What an observer of a run sees the framework do, in order: the proxy acquired and
  released, a case group constructed and called, a chain of callbacks or a broadcast to
  the layers started (by the name of the hook), the error broadcast with its error.
\<close>

datatype event =
    ProxyAcquired
  | ProxyReleased
  | GroupConstructed
  | GroupCalled
  | Callbacks string
  | Broadcast string
  | ErrorBroadcast exc

record ('w, 'x, 'k, 'c, 'g) state =
  suite :: "('w, 'x, 'k, 'c, 'g) Suite"
  result :: Result
  world :: 'w
  trace :: "event list"

definition emit :: "event \<Rightarrow> ('w, 'x, 'k, 'c, 'g) state \<Rightarrow> ('w, 'x, 'k, 'c, 'g) state" where
  "emit ev st = st\<lparr>trace := trace st @ [ev]\<rparr>"

text \<open>
  Modelled from the spec: \<open>utils.common.call_to_chain\<close> is not among the sources. The
  specification, section 4.2: invoke each target in order, propagating any failure
  immediately and halting the remaining sequence.
\<close>

fun call_to_chain :: "'w action list \<Rightarrow> 'w action" where
  "call_to_chain [] w = (None, w)"
| "call_to_chain (f # fs) w =
     (case f w of
        (Some e, w') \<Rightarrow> (Some e, w')
      | (None, w') \<Rightarrow> call_to_chain fs w')"

text \<open>
  The property \<open>SuiteContext.layers\<close>, lines 171 to 179, and \<open>with_match_layers\<close>, lines
  22 to 28: the enabled default layers, the enabled layers of the context, then the
  enabled layers matched to a class the suite is an instance of.
\<close>

definition context_layers ::
  "('w, 'c, 'g) runtime \<Rightarrow> ('w, 'x) SuiteContext \<Rightarrow> 'w SuiteLayer list" where
  "context_layers rt ctx = filter enabled (DEFAULT_LAYERS rt) @ filter enabled (layers ctx)"

definition with_match_layers ::
  "('w, 'c, 'g) runtime \<Rightarrow> ('w, 'x, 'k, 'c, 'g) Suite \<Rightarrow> 'w SuiteLayer list" where
  "with_match_layers rt s =
     context_layers rt (suite_context s)
     @ map snd (filter (\<lambda>(cls, layer). cls \<in> set (class_mro s) \<and> enabled layer)
                  (MATCH_SUITE_TO_LAYER rt))"

text \<open>
  Running user code on the world of a state: \<open>call_to_chain\<close> over a list of actions.
\<close>

definition chain ::
  "'w action list \<Rightarrow> ('w, 'x, 'k, 'c, 'g) state \<Rightarrow> exc option \<times> ('w, 'x, 'k, 'c, 'g) state" where
  "chain fs st = (case call_to_chain fs (world st) of (r, w) \<Rightarrow> (r, st\<lparr>world := w\<rparr>))"

text \<open>
  Modelled from the spec: \<open>runnable.stopped_on\<close> is not among the sources. The
  specification, section 4.5: the failure is tagged with a marker recording the phase it
  occurred in. The marker is kept on the suite the call is given.
\<close>

definition stopped_on ::
  "string \<Rightarrow> ('w, 'x, 'k, 'c, 'g) state \<Rightarrow> ('w, 'x, 'k, 'c, 'g) state" where
  "stopped_on phase st = st\<lparr>suite := (suite st)\<lparr>stopped := Some phase\<rparr>\<rparr>"

text \<open>
  The \<open>try ... except BaseException: runnable.stopped_on(suite, phase); raise\<close> around
  the body of a context method.
\<close>

definition tagged ::
  "string \<Rightarrow> exc option \<times> ('w, 'x, 'k, 'c, 'g) state \<Rightarrow> exc option \<times> ('w, 'x, 'k, 'c, 'g) state" where
  "tagged phase r =
     (case r of
        (Some e, st) \<Rightarrow> (Some e, stopped_on phase st)
      | (None, st) \<Rightarrow> (None, st))"

text \<open>\<open>SuiteContext.start_context\<close>, lines 189 to 197.\<close>

definition start_context ::
  "('w, 'c, 'g) runtime \<Rightarrow> ('w, 'x, 'k, 'c, 'g) state
     \<Rightarrow> exc option \<times> ('w, 'x, 'k, 'c, 'g) state" where
  "start_context rt st =
     tagged ''start_context''
       (case chain (setup_callbacks (suite_context (suite st))) (emit (Callbacks ''setup'') st) of
          (Some e, st1) \<Rightarrow> (Some e, st1)
        | (None, st1) \<Rightarrow>
            chain (map on_setup (with_match_layers rt (suite st1)))
              (emit (Broadcast ''on_setup'') st1))"

text \<open>\<open>SuiteContext.stop_context\<close>, lines 199 to 207.\<close>

definition stop_context ::
  "('w, 'c, 'g) runtime \<Rightarrow> ('w, 'x, 'k, 'c, 'g) state
     \<Rightarrow> exc option \<times> ('w, 'x, 'k, 'c, 'g) state" where
  "stop_context rt st =
     tagged ''stop_context''
       (case chain (teardown_callbacks (suite_context (suite st)))
               (emit (Callbacks ''teardown'') st) of
          (Some e, st1) \<Rightarrow> (Some e, st1)
        | (None, st1) \<Rightarrow>
            chain (map on_teardown (with_match_layers rt (suite st1)))
              (emit (Broadcast ''on_teardown'') st1))"

text \<open>\<open>SuiteContext.on_mount\<close>, lines 224 to 227: no marker is left here.\<close>

definition context_on_mount ::
  "('w, 'c, 'g) runtime \<Rightarrow> ('w, 'x, 'k, 'c, 'g) state
     \<Rightarrow> exc option \<times> ('w, 'x, 'k, 'c, 'g) state" where
  "context_on_mount rt st =
     chain (map on_mount (with_match_layers rt (suite st))) (emit (Broadcast ''on_mount'') st)"

text \<open>\<open>SuiteContext.on_run\<close>, lines 229 to 236.\<close>

definition context_on_run ::
  "('w, 'c, 'g) runtime \<Rightarrow> ('w, 'x, 'k, 'c, 'g) state
     \<Rightarrow> exc option \<times> ('w, 'x, 'k, 'c, 'g) state" where
  "context_on_run rt st =
     tagged ''on_run''
       (chain (map on_run (with_match_layers rt (suite st))) (emit (Broadcast ''on_run'') st))"

text \<open>\<open>SuiteContext.on_error\<close>, lines 238 to 245.\<close>

definition context_on_error ::
  "('w, 'c, 'g) runtime \<Rightarrow> exc \<Rightarrow> ('w, 'x, 'k, 'c, 'g) state
     \<Rightarrow> exc option \<times> ('w, 'x, 'k, 'c, 'g) state" where
  "context_on_error rt error st =
     tagged ''on_error''
       (chain (map (\<lambda>layer. on_error layer error) (with_match_layers rt (suite st)))
          (emit (ErrorBroadcast error) st))"

text \<open>
  Modelled from the spec: the exit of the scoped context of
  \<open>runnable.ContextOfRunnableObject\<close>, which is not among the sources. The
  specification, sections 4.5 and 7: a failure of the exit is re-raised. It replaces
  the failure \<open>pending\<close> that was leaving the scope, as an exception raised while
  another is propagating does in Python; when the exit completes, the pending failure
  goes on.
\<close>

definition leaving ::
  "exc option \<Rightarrow> exc option \<times> ('w, 'x, 'k, 'c, 'g) state
     \<Rightarrow> exc option \<times> ('w, 'x, 'k, 'c, 'g) state" where
  "leaving pending r =
     (case r of
        (Some e, st) \<Rightarrow> (Some e, st)
      | (None, st) \<Rightarrow> (pending, st))"

text \<open>
  Modelled from the spec: \<open>ContextOfRunnableObject.__call__\<close>, the scoped context entered
  by \<open>with self.__context(self)\<close>, is not among the sources. The specification, section
  4.5: entering runs the setup callbacks and the setup broadcast (\<open>start_context\<close>);
  exiting, on every exit path, runs the teardown callbacks and the teardown broadcast
  (\<open>stop_context\<close>).
\<close>

definition scoped ::
  "('w, 'c, 'g) runtime
     \<Rightarrow> (('w, 'x, 'k, 'c, 'g) state \<Rightarrow> exc option \<times> ('w, 'x, 'k, 'c, 'g) state)
     \<Rightarrow> ('w, 'x, 'k, 'c, 'g) state \<Rightarrow> exc option \<times> ('w, 'x, 'k, 'c, 'g) state" where
  "scoped rt body st =
     (case start_context rt st of
        (Some e, st1) \<Rightarrow>
          if stop_after_failed_start rt then leaving (Some e) (stop_context rt st1)
          else (Some e, st1)
      | (None, st1) \<Rightarrow>
          (case body st1 of (r, st2) \<Rightarrow> leaving r (stop_context rt st2)))"

section \<open>suite.py: mount_to\<close>

text \<open>The program: its configuration and the suites mounted to it, by name.\<close>

record Program =
  program_config :: config
  suites :: "string list"

definition already_mount :: "('w, 'x, 'k, 'c, 'g) Suite \<Rightarrow> exc" where
  "already_mount s = RuntimeError (''Suite '' @ [CHR 0x22] @ name s @ [CHR 0x22] @ '' already mount'')"

text \<open>\<open>Suite.mount_to\<close>, lines 421 to 433.\<close>

definition mount_to ::
  "('w, 'c, 'g) runtime \<Rightarrow> Program \<times> ('w, 'x, 'k, 'c, 'g) state
     \<Rightarrow> exc option \<times> Program \<times> ('w, 'x, 'k, 'c, 'g) state" where
  "mount_to rt ps =
     (case ps of (program, st) \<Rightarrow>
        if is_mount (suite st) then (Some (already_mount (suite st)), program, st)
        else
          (case context_on_mount rt
                  (st\<lparr>suite := (suite st)\<lparr>mount_data := Some (program_config program)\<rparr>\<rparr>) of
             (r, st') \<Rightarrow> (r, program\<lparr>suites := suites program @ [name (suite st)]\<rparr>, st')))"

section \<open>suite.py: run\<close>

text \<open>Calling the group: \<open>group(result_proxy)\<close>.\<close>

definition group_call ::
  "('w, 'c, 'g) runtime \<Rightarrow> ('c, 'g) CaseGroup \<Rightarrow> ('w, 'x, 'k, 'c, 'g) state
     \<Rightarrow> exc option \<times> ('w, 'x, 'k, 'c, 'g) state" where
  "group_call rt grp st = chain [call_group rt grp] (emit GroupCalled st)"

text \<open>
  The body of the \<open>try\<close> of \<open>run\<close>, lines 542 to 545: the run broadcast, then the group
  called inside the scoped context.
\<close>

definition try_body ::
  "('w, 'c, 'g) runtime \<Rightarrow> ('c, 'g) CaseGroup \<Rightarrow> ('w, 'x, 'k, 'c, 'g) state
     \<Rightarrow> exc option \<times> ('w, 'x, 'k, 'c, 'g) state" where
  "try_body rt grp st =
     (case context_on_run rt st of
        (Some e, st1) \<Rightarrow> (Some e, st1)
      | (None, st1) \<Rightarrow> scoped rt (group_call rt grp) st1)"

text \<open>
  Modelled from the spec: the result proxy and \<open>measure_time\<close> are not among the sources.
  The specification, sections 4.2 and 4.9: the probe returns the time elapsed since the
  measurement started; the sole write operation of the handle records one error (suite,
  formatted trace, duration, error value).

  This is the call \<open>result_proxy.add_error(self, traceback.format_exc(), timer(), error)\<close>
  of \<open>run\<close>, where \<open>timer\<close> is the probe \<open>measure_time()\<close> returned at the tick \<open>t0\<close>.
\<close>

definition add_error ::
  "('w, 'c, 'g) runtime \<Rightarrow> int \<Rightarrow> exc \<Rightarrow> ('w, 'x, 'k, 'c, 'g) state
     \<Rightarrow> ('w, 'x, 'k, 'c, 'g) state" where
  "add_error rt t0 error st =
     st\<lparr>result := (result st)\<lparr>errors := errors (result st)
        @ [(name (suite st), format_exc rt error, clock rt (world st) - t0, error)]\<rparr>\<rparr>"

text \<open>
  The two \<open>except\<close> clauses of \<open>run\<close>, lines 546 to 552, applied to what left the body of
  the \<open>try\<close>.
\<close>

definition handlers ::
  "('w, 'c, 'g) runtime \<Rightarrow> int \<Rightarrow> exc option \<times> ('w, 'x, 'k, 'c, 'g) state
     \<Rightarrow> exc option \<times> ('w, 'x, 'k, 'c, 'g) state" where
  "handlers rt t0 r =
     (case r of
        (None, st) \<Rightarrow> (None, st)
      | (Some error, st) \<Rightarrow>
          if ALLOW_RAISED_EXCEPTIONS rt error then (Some error, st)
          else context_on_error rt error (add_error rt t0 error st))"

text \<open>
  Modelled from the spec: \<open>result.proxy\<close> is not among the sources. The specification,
  section 3: a proxy is acquired and released around each suite's run. Releasing it lets
  an exception that leaves the block pass.
\<close>

definition with_proxy ::
  "(('w, 'x, 'k, 'c, 'g) state \<Rightarrow> exc option \<times> ('w, 'x, 'k, 'c, 'g) state)
     \<Rightarrow> ('w, 'x, 'k, 'c, 'g) state \<Rightarrow> exc option \<times> ('w, 'x, 'k, 'c, 'g) state" where
  "with_proxy block st =
     (case block (emit ProxyAcquired st) of (r, st') \<Rightarrow> (r, emit ProxyReleased st'))"

text \<open>The first statement of \<open>run\<close>: \<open>self.__is_run = True\<close>.\<close>

definition mark_run :: "('w, 'x, 'k, 'c, 'g) state \<Rightarrow> ('w, 'x, 'k, 'c, 'g) state" where
  "mark_run st = st\<lparr>suite := (suite st)\<lparr>is_run := True\<rparr>\<rparr>"

text \<open>\<open>Suite.run\<close>, lines 530 to 552, build-guarded.\<close>

definition run ::
  "('w, 'c, 'g) runtime \<Rightarrow> ('w, 'x, 'k, 'c, 'g) state
     \<Rightarrow> exc option \<times> ('w, 'x, 'k, 'c, 'g) state" where
  "run rt st =
     (case build_method (suite st) of
        Some e \<Rightarrow> (Some e, st)
      | None \<Rightarrow>
          (let st1 = mark_run st in
           if should_stop (result st1) \<or> case_instances (suite st1) = [] then (None, st1)
           else
             (case make_group (IS_PYTHON_3 rt) (suite st1) of
                Inl e \<Rightarrow> (Some e, st1)
              | Inr grp \<Rightarrow>
                  (let t0 = clock rt (world st1) in
                   with_proxy (\<lambda>st2. handlers rt t0 (try_body rt grp st2))
                     (emit GroupConstructed st1)))))"

section \<open>ext/mock_server/__main__.py\<close>

text \<open>
  The values \<open>parser.parse_args()\<close> returns, one field for each \<open>dest\<close> of \<open>get_parser\<close>.
  The three concurrency flags carry a prefix here, the configuration of a suite having
  fields of the same names.
\<close>

record options =
  PORT :: int
  HOST :: string
  MOCKS_DIR :: "string option"
  SERVER_TYPE :: string
  NO_DEBUG :: bool
  opt_MULTIPROCESSING :: bool
  opt_THREADING :: bool
  opt_GEVENT :: bool

definition DEFAULT_PORT :: int where
  "DEFAULT_PORT = 5000"

definition DEFAULT_HOST :: string where
  "DEFAULT_HOST = ''127.0.0.1''"

text \<open>
  \<open>get_parser\<close>, lines 10 to 70: the \<open>default\<close> of each option. They are the values
  \<open>parse_args\<close> returns for a command line without flags.
\<close>

definition default_options :: options where
  "default_options =
     \<lparr>PORT = DEFAULT_PORT, HOST = DEFAULT_HOST, MOCKS_DIR = None,
      SERVER_TYPE = ''json_api'', NO_DEBUG = True,
      opt_MULTIPROCESSING = False, opt_THREADING = False, opt_GEVENT = False\<rparr>"

text \<open>The arguments \<open>main\<close> passes to the constructor of a server type.\<close>

record server_args =
  mocks_dir :: "string option"
  host :: string
  port :: int
  debug :: bool
  gevent :: bool
  threading :: bool
  multiprocessing :: bool

text \<open>
  The registry \<open>SERVER_TYPES\<close> of the package, from a type key to a constructor, and
  \<open>serve_forever\<close> of a constructed server \<open>'s\<close>: both are outside the sources and may
  raise. A \<open>serve_forever\<close> that returns \<open>None\<close> has served until it was stopped.
\<close>

record 's mock_server =
  cli_IS_PYTHON_3 :: bool
  SERVER_TYPES :: "string \<rightharpoonup> (server_args \<Rightarrow> exc + 's)"
  serve_forever :: "'s \<Rightarrow> exc option"

text \<open>What the launcher is seen to do.\<close>

datatype cli_event =
    PatchAll
  | Construct string server_args
  | ServeForever

definition is_KeyError :: "exc \<Rightarrow> bool" where
  "is_KeyError e = (case e of KeyError _ \<Rightarrow> True | _ \<Rightarrow> False)"

text \<open>The clause \<open>except KeyError: raise ValueError('Incorrect server type')\<close>.\<close>

definition except_KeyError :: "exc \<Rightarrow> exc" where
  "except_KeyError e = (if is_KeyError e then ValueError ''Incorrect server type'' else e)"

definition args_of :: "options \<Rightarrow> server_args" where
  "args_of opts =
     \<lparr>mocks_dir = MOCKS_DIR opts, host = HOST opts, port = PORT opts,
      debug = NO_DEBUG opts, gevent = opt_GEVENT opts, threading = opt_THREADING opts,
      multiprocessing = opt_MULTIPROCESSING opts\<rparr>"

text \<open>
  The body of the \<open>try\<close> of \<open>main\<close>, lines 87 to 96: the subscript raises \<open>KeyError\<close> for
  a key the registry does not have.
\<close>

definition serve :: "'s mock_server \<Rightarrow> options \<Rightarrow> exc option \<times> cli_event list" where
  "serve env opts =
     (case SERVER_TYPES env (SERVER_TYPE opts) of
        None \<Rightarrow> (Some (KeyError (SERVER_TYPE opts)), [])
      | Some constructor \<Rightarrow>
          (case constructor (args_of opts) of
             Inl e \<Rightarrow> (Some e, [Construct (SERVER_TYPE opts) (args_of opts)])
           | Inr server \<Rightarrow>
               (serve_forever env server,
                [Construct (SERVER_TYPE opts) (args_of opts), ServeForever])))"

text \<open>
  \<open>main\<close>, lines 73 to 98, from the parsed options on. It returns the exception that
  ends the process, if any, and what was done before.
\<close>

definition main :: "'s mock_server \<Rightarrow> options \<Rightarrow> exc option \<times> cli_event list" where
  "main env opts =
     (case (if opt_GEVENT opts
            then (case check_gevent_supported (cli_IS_PYTHON_3 env) of
                    Some e \<Rightarrow> (Some e, [])
                  | None \<Rightarrow> (None, [PatchAll]))
            else (None, [])) of
        (Some e, evs) \<Rightarrow> (Some e, evs)
      | (None, evs) \<Rightarrow>
          (case serve env opts of
             (Some e, evs') \<Rightarrow> (Some (except_KeyError e), evs @ evs')
           | (None, evs') \<Rightarrow> (None, evs @ evs')))"

section \<open>What a broadcast leaves untouched\<close>

text \<open>
  User code acts on the world, and the framework around it writes only the trace and the
  marker of \<open>stopped_on\<close>: between two states related by \<open>frame\<close> the result and, the
  marker apart, the suite are the same.
\<close>

definition frame :: "('w, 'x, 'k, 'c, 'g) state \<Rightarrow> ('w, 'x, 'k, 'c, 'g) state \<Rightarrow> bool" where
  "frame st st' =
     (result st' = result st \<and> (suite st')\<lparr>stopped := stopped (suite st)\<rparr> = suite st)"

section \<open>Example objects\<close>

text \<open>
  A suite named \<open>A\<close> that requires the extension \<open>ext1\<close> and has one registered case
  class, not yet mounted; worlds are counters, and extensions, case classes, case
  instances and group classes are known by their names.
\<close>

definition contextA :: "(nat, string) SuiteContext" where
  "contextA =
     \<lparr>layers = [], require = [''ext1''], extensions = Map.empty, build_rules = [],
      setup_callbacks = [], teardown_callbacks = []\<rparr>"

definition suiteA :: "(nat, string, string, string, string) Suite" where
  "suiteA =
     \<lparr>name = ''A'', class_name = ''Suite'', class_mro = [''Suite'', ''object''],
      case_group_class = None, is_run = False, is_build = False,
      case_classes = [''CaseX''], case_instances = [], mount_data = None,
      suite_context = contextA, stopped = None\<rparr>"

definition ruleA :: BuildRule where
  "ruleA = \<lparr>suite_name = ''A'', case_name = Some ''CaseX'', test_name = Some ''test_y''\<rparr>"

text \<open>The suite \<open>A\<close> mounted to a program with the given configuration and built.\<close>

definition builtA :: "config \<Rightarrow> (nat, string, string, string, string) Suite" where
  "builtA cfg =
     suiteA\<lparr>mount_data := Some cfg, case_instances := [''CaseX.test_y''], is_build := True,
       suite_context := contextA\<lparr>extensions := [''ext1'' \<mapsto> ''instance of ext1'']\<rparr>\<rparr>"

text \<open>
  A launcher of the mock server with the two registered server types, on either
  generation of the interpreter, and one whose \<open>simple\<close> constructor and whose
  \<open>serve_forever\<close> raise \<open>KeyError\<close>.
\<close>

definition registry :: "string \<rightharpoonup> (server_args \<Rightarrow> exc + string)" where
  "registry = [''simple'' \<mapsto> (\<lambda>a. Inr ''simple server''),
               ''json_api'' \<mapsto> (\<lambda>a. Inr ''json_api server'')]"

definition launcher :: "bool \<Rightarrow> string mock_server" where
  "launcher py3 = \<lparr>cli_IS_PYTHON_3 = py3, SERVER_TYPES = registry, serve_forever = (\<lambda>s. None)\<rparr>"

definition failing_launcher :: "string mock_server" where
  "failing_launcher =
     \<lparr>cli_IS_PYTHON_3 = False,
      SERVER_TYPES = [''simple'' \<mapsto> (\<lambda>a. Inl (KeyError ''mocks'')),
                      ''json_api'' \<mapsto> (\<lambda>a. Inr ''json_api server'')],
      serve_forever = (\<lambda>s. Some (KeyError ''route''))\<rparr>"

text \<open>
  A runtime whose always-propagate set is the keyboard interrupt and whose case group has
  the given outcome; every piece of user code advances the world, a counter that is also
  the clock, by one. The layer has an \<open>on_error\<close> hook with the given outcome. The suite
  \<open>suiteL t r\<close> is the built suite \<open>A\<close> with that layer, one setup callback and one teardown
  callback with outcome \<open>t\<close>.
\<close>

definition interrupt :: exc where
  "interrupt = OtherError ''KeyboardInterrupt'' ''''"

definition tick :: "exc option \<Rightarrow> nat action" where
  "tick r w = (r, Suc w)"

definition layerA :: "exc option \<Rightarrow> nat SuiteLayer" where
  "layerA r =
     \<lparr>enabled = True, on_setup = tick None, on_teardown = tick None, on_mount = tick None,
      on_run = tick None, on_error = (\<lambda>e. tick r)\<rparr>"

definition runtimeA :: "exc option \<Rightarrow> (nat, string, string) runtime" where
  "runtimeA r =
     \<lparr>IS_PYTHON_3 = True, ALLOW_RAISED_EXCEPTIONS = (\<lambda>e. e = interrupt),
      DEFAULT_LAYERS = [], MATCH_SUITE_TO_LAYER = [],
      call_group = (\<lambda>g. tick r), format_exc = (\<lambda>e. ''Traceback (most recent call last)''),
      clock = int, stop_after_failed_start = False\<rparr>"

definition cfgA :: config where
  "cfgA = \<lparr>GEVENT = False, THREADING = False, MULTIPROCESSING = False\<rparr>"

definition suiteL :: "exc option \<Rightarrow> exc option \<Rightarrow> (nat, string, string, string, string) Suite" where
  "suiteL t r =
     (builtA cfgA)\<lparr>suite_context := (suite_context (builtA cfgA))
        \<lparr>layers := [layerA r], setup_callbacks := [tick None], teardown_callbacks := [tick t]\<rparr>\<rparr>"

definition stateA ::
  "bool \<Rightarrow> (nat, string, string, string, string) Suite
     \<Rightarrow> (nat, string, string, string, string) state" where
  "stateA stop s = \<lparr>suite = s, result = \<lparr>should_stop = stop, errors = []\<rparr>, world = 0, trace = []\<rparr>"

text \<open>
  A loader whose registry knows the extensions \<open>ext1\<close> and \<open>ext2\<close>, which finds a case
  class by its name among the registered ones and builds one case instance from a
  class; the suite \<open>A\<close> mounted; a shuffle function that raises; a program.
\<close>

definition loaderA :: "(nat, string, string, string, string) loader" where
  "loaderA =
     \<lparr>extensions_get = (\<lambda>n. if n \<in> {''ext1'', ''ext2''} then Inr (''instance of '' @ n)
                              else Inl (OtherError ''ExtensionNotFound'' n)),
      load_case_from_suite = (\<lambda>n s. if n \<in> set (case_classes s) then Inr n
                                     else Inl (OtherError ''LoaderError'' n)),
      load_tests_from_case = (\<lambda>cls cfg method_name exts.
         case method_name of None \<Rightarrow> Inr [cls @ ''.test_y''] | Some m \<Rightarrow> Inr [cls @ ''.'' @ m])\<rparr>"

definition mountedA :: "(nat, string, string, string, string) Suite" where
  "mountedA = suiteA\<lparr>mount_data := Some cfgA\<rparr>"

definition failing_shuffle :: "string list \<Rightarrow> exc option \<times> string list" where
  "failing_shuffle boxes = (Some (OtherError ''TypeError'' ''shuffle''), boxes)"

definition programA :: Program where
  "programA = \<lparr>program_config = cfgA, suites = []\<rparr>"

section \<open>Properties of BuildRule\<close>

text \<open>
  Claim C9. A \<open>BuildRule\<close> whose suite name, case name and test name are all present
  (non-empty, so true for Python) renders as the suite name, a colon, the case name, a
  dot and the case name again: the test name has no part in the rendering.
\<close>

theorem BuildRule_str_repeats_case_name:
  "sn \<noteq> [] \<Longrightarrow> cn \<noteq> [] \<Longrightarrow> tn \<noteq> [] \<Longrightarrow>
   BuildRule_str \<lparr>suite_name = sn, case_name = Some cn, test_name = Some tn\<rparr>
     = sn @ '':'' @ cn @ ''.'' @ cn"
  by (simp add: BuildRule_str_def truthy_def fmt_def)

theorem BuildRule_str_repeats_case_name_witness:
  "BuildRule_str ruleA = ''A:CaseX.CaseX''"
  using BuildRule_str_repeats_case_name [of "''A''" "''CaseX''" "''test_y''"]
  by (simp add: ruleA_def)

text \<open>
  Claim C6. \<open>assign_build_rule\<close> fails with the assertion failure (InvalidArgument in the
  specification) when the rule's suite name differs from the name of the suite, the test
  \<open>is_of\<close> being the equality of the two names. When they are equal, a rule with a case
  name is appended to the build rules of the context, and a rule without one (\<open>None\<close> or
  empty) is accepted and the suite is left as it was.
\<close>

theorem assign_build_rule_cases:
  "is_of r s = (suite_name r = name s)
   \<and> (suite_name r \<noteq> name s \<longrightarrow>
      assign_build_rule r s
        = Inl (AssertionError (''Build rule is not of this suite '' @ BuildRule_str r)))
   \<and> (suite_name r = name s \<and> truthy (case_name r) \<longrightarrow>
      assign_build_rule r s
        = Inr (s\<lparr>suite_context :=
                 (suite_context s)\<lparr>build_rules := build_rules (suite_context s) @ [r]\<rparr>\<rparr>))
   \<and> (suite_name r = name s \<and> \<not> truthy (case_name r) \<longrightarrow> assign_build_rule r s = Inr s)"
  by (simp add: assign_build_rule_def is_of_def)

theorem assign_build_rule_cases_witness:
  "assign_build_rule \<lparr>suite_name = ''B'', case_name = Some ''CaseX'', test_name = None\<rparr> suiteA
     = Inl (AssertionError ''Build rule is not of this suite B:CaseX'')
   \<and> assign_build_rule ruleA suiteA
     = Inr (suiteA\<lparr>suite_context := contextA\<lparr>build_rules := [ruleA]\<rparr>\<rparr>)
   \<and> assign_build_rule \<lparr>suite_name = ''A'', case_name = None, test_name = None\<rparr> suiteA
     = Inr suiteA"
  using
    assign_build_rule_cases
      [of "\<lparr>suite_name = ''B'', case_name = Some ''CaseX'', test_name = None\<rparr>" suiteA]
    assign_build_rule_cases [of ruleA suiteA]
    assign_build_rule_cases
      [of "\<lparr>suite_name = ''A'', case_name = None, test_name = None\<rparr>" suiteA]
  by (simp add: suiteA_def contextA_def ruleA_def truthy_def BuildRule_str_def fmt_def)

section \<open>Properties of the choice of the case group\<close>

text \<open>
  Claim C4. For a suite mounted with configuration \<open>cfg\<close> (a built suite is mounted,
  \<open>build\<close> being mount-guarded), \<open>_make_group\<close> chooses by this precedence: a class-level
  case group class wins whatever the flags; otherwise, with the gevent flag set, the
  compatibility gate runs and raises \<open>PyVersionError\<close> (VersionUnsupported) on Python 3,
  and the gevent group is chosen when it passes; otherwise the threading group is chosen
  when the threading flag or the multiprocessing flag is set, the same group for both;
  otherwise the default group.
\<close>

theorem make_group_precedence:
  assumes "mount_data s = Some cfg"
  shows "(case_group_class s = Some cls \<longrightarrow>
            make_group py3 s = Inr (CustomCaseGroup cls (case_instances s) cfg))
   \<and> (case_group_class s = None \<and> GEVENT cfg \<and> py3 \<longrightarrow>
            make_group py3 s = Inl (PyVersionError ''gevent lib not supported with python 3''))
   \<and> (case_group_class s = None \<and> GEVENT cfg \<and> \<not> py3 \<longrightarrow>
            make_group py3 s = Inr (GeventCaseGroup (case_instances s) cfg))
   \<and> (case_group_class s = None \<and> \<not> GEVENT cfg \<and> (THREADING cfg \<or> MULTIPROCESSING cfg) \<longrightarrow>
            make_group py3 s = Inr (ThreadingCaseGroup (case_instances s) cfg))
   \<and> (case_group_class s = None \<and> \<not> GEVENT cfg \<and> \<not> THREADING cfg \<and> \<not> MULTIPROCESSING cfg \<longrightarrow>
            make_group py3 s = Inr (DefaultCaseGroup (case_instances s) cfg))"
  using assms by (simp add: make_group_def config_of_def check_gevent_supported_def)

theorem make_group_precedence_witness:
  "make_group True ((builtA \<lparr>GEVENT = True, THREADING = True, MULTIPROCESSING = True\<rparr>)
        \<lparr>case_group_class := Some ''MyGroup''\<rparr>)
     = Inr (CustomCaseGroup ''MyGroup'' [''CaseX.test_y'']
              \<lparr>GEVENT = True, THREADING = True, MULTIPROCESSING = True\<rparr>)
   \<and> make_group True (builtA \<lparr>GEVENT = True, THREADING = True, MULTIPROCESSING = True\<rparr>)
     = Inl (PyVersionError ''gevent lib not supported with python 3'')
   \<and> make_group False (builtA \<lparr>GEVENT = True, THREADING = True, MULTIPROCESSING = True\<rparr>)
     = Inr (GeventCaseGroup [''CaseX.test_y'']
              \<lparr>GEVENT = True, THREADING = True, MULTIPROCESSING = True\<rparr>)
   \<and> make_group True (builtA \<lparr>GEVENT = False, THREADING = True, MULTIPROCESSING = False\<rparr>)
     = Inr (ThreadingCaseGroup [''CaseX.test_y'']
              \<lparr>GEVENT = False, THREADING = True, MULTIPROCESSING = False\<rparr>)
   \<and> make_group True (builtA \<lparr>GEVENT = False, THREADING = False, MULTIPROCESSING = True\<rparr>)
     = Inr (ThreadingCaseGroup [''CaseX.test_y'']
              \<lparr>GEVENT = False, THREADING = False, MULTIPROCESSING = True\<rparr>)
   \<and> make_group True (builtA \<lparr>GEVENT = False, THREADING = False, MULTIPROCESSING = False\<rparr>)
     = Inr (DefaultCaseGroup [''CaseX.test_y'']
              \<lparr>GEVENT = False, THREADING = False, MULTIPROCESSING = False\<rparr>)"
  using
    make_group_precedence
      [of "(builtA \<lparr>GEVENT = True, THREADING = True, MULTIPROCESSING = True\<rparr>)
             \<lparr>case_group_class := Some ''MyGroup''\<rparr>"
          "\<lparr>GEVENT = True, THREADING = True, MULTIPROCESSING = True\<rparr>" "''MyGroup''" True]
    make_group_precedence
      [of "builtA \<lparr>GEVENT = True, THREADING = True, MULTIPROCESSING = True\<rparr>"
          "\<lparr>GEVENT = True, THREADING = True, MULTIPROCESSING = True\<rparr>" "''MyGroup''" True]
    make_group_precedence
      [of "builtA \<lparr>GEVENT = True, THREADING = True, MULTIPROCESSING = True\<rparr>"
          "\<lparr>GEVENT = True, THREADING = True, MULTIPROCESSING = True\<rparr>" "''MyGroup''" False]
    make_group_precedence
      [of "builtA \<lparr>GEVENT = False, THREADING = True, MULTIPROCESSING = False\<rparr>"
          "\<lparr>GEVENT = False, THREADING = True, MULTIPROCESSING = False\<rparr>" "''MyGroup''" True]
    make_group_precedence
      [of "builtA \<lparr>GEVENT = False, THREADING = False, MULTIPROCESSING = True\<rparr>"
          "\<lparr>GEVENT = False, THREADING = False, MULTIPROCESSING = True\<rparr>" "''MyGroup''" True]
    make_group_precedence
      [of "builtA \<lparr>GEVENT = False, THREADING = False, MULTIPROCESSING = False\<rparr>"
          "\<lparr>GEVENT = False, THREADING = False, MULTIPROCESSING = False\<rparr>" "''MyGroup''" True]
  by (simp add: builtA_def suiteA_def)

section \<open>Properties of unicode_string\<close>

text \<open>
  Claim C8, as amended. \<open>unicode_string\<close> returns its argument coerced to text; a
  failure of the coercion other than a decoding failure propagates; on a decoding
  failure it retries by decoding the value as UTF-8 and coercing that. When the retry
  fails with an \<open>AttributeError\<close> (the value has no \<open>decode\<close>), the original decoding
  failure is raised again; any other failure of the retry propagates itself.
\<close>

theorem unicode_string_cases:
  "(unicode b s = Inr t \<longrightarrow> unicode_string b s = Inr t)
   \<and> (unicode b s = Inl e \<and> \<not> is_UnicodeDecodeError e \<longrightarrow> unicode_string b s = Inl e)
   \<and> (unicode b s = Inl e \<and> is_UnicodeDecodeError e \<and> retry_decode b s = Inr t
        \<longrightarrow> unicode_string b s = Inr t)
   \<and> (unicode b s = Inl e \<and> is_UnicodeDecodeError e \<and> retry_decode b s = Inl e'
        \<and> is_AttributeError e' \<longrightarrow> unicode_string b s = Inl e)
   \<and> (unicode b s = Inl e \<and> is_UnicodeDecodeError e \<and> retry_decode b s = Inl e'
        \<and> \<not> is_AttributeError e' \<longrightarrow> unicode_string b s = Inl e')"
  by (simp add: unicode_string_def)

lemma py2_facts:
  "unicode python2 (PyStr ''abc'') = Inr [97, 98, 99]"
  "unicode python2 (PyObject (Inl (ValueError ''no text''))) = Inl (ValueError ''no text'')"
  "\<not> is_UnicodeDecodeError (ValueError ''no text'')"
  "unicode python2 (PyStr [CHR 0xC3, CHR 0xA9]) = Inl (UnicodeDecodeError ''ascii'')"
  "is_UnicodeDecodeError (UnicodeDecodeError ''ascii'')"
  "retry_decode python2 (PyStr [CHR 0xC3, CHR 0xA9]) = Inr [233]"
  "unicode python2 (PyObject (Inl (UnicodeDecodeError ''ascii''))) = Inl (UnicodeDecodeError ''ascii'')"
  "retry_decode python2 (PyObject (Inl (UnicodeDecodeError ''ascii''))) = Inl (AttributeError ''decode'')"
  "is_AttributeError (AttributeError ''decode'')"
  "unicode python2 (PyStr [CHR 0xFF]) = Inl (UnicodeDecodeError ''ascii'')"
  "retry_decode python2 (PyStr [CHR 0xFF]) = Inl (UnicodeDecodeError ''utf8'')"
  "\<not> is_AttributeError (UnicodeDecodeError ''utf8'')"
  by code_simp+

theorem unicode_string_cases_witness:
  "unicode_string python2 (PyStr ''abc'') = Inr [97, 98, 99]
   \<and> unicode_string python2 (PyObject (Inl (ValueError ''no text''))) = Inl (ValueError ''no text'')
   \<and> unicode_string python2 (PyStr [CHR 0xC3, CHR 0xA9]) = Inr [233]
   \<and> unicode_string python2 (PyObject (Inl (UnicodeDecodeError ''ascii'')))
       = Inl (UnicodeDecodeError ''ascii'')
   \<and> unicode_string python2 (PyStr [CHR 0xFF]) = Inl (UnicodeDecodeError ''utf8'')"
  using
    unicode_string_cases [of python2 "PyStr ''abc''" "[97, 98, 99]"]
    unicode_string_cases [of python2 "PyObject (Inl (ValueError ''no text''))" _ "ValueError ''no text''"]
    unicode_string_cases [of python2 "PyStr [CHR 0xC3, CHR 0xA9]" "[233]" "UnicodeDecodeError ''ascii''"]
    unicode_string_cases [of python2 "PyObject (Inl (UnicodeDecodeError ''ascii''))" _
       "UnicodeDecodeError ''ascii''" "AttributeError ''decode''"]
    unicode_string_cases [of python2 "PyStr [CHR 0xFF]" _
       "UnicodeDecodeError ''ascii''" "UnicodeDecodeError ''utf8''"]
  by (simp only: py2_facts simp_thms)

text \<open>
  Claim C8 as stated fails: in Python 2 the byte string \<open>'\xff'\<close> cannot be decoded by
  \<open>unicode\<close> (the \<open>ascii\<close> codec fails), the retry fails as well (the \<open>utf8\<close> codec fails),
  and what \<open>unicode_string\<close> raises is the failure of the retry, not the original one.
\<close>

theorem unicode_string_retry_failure_counterexample:
  "unicode python2 (PyStr [CHR 0xFF]) = Inl (UnicodeDecodeError ''ascii'')
   \<and> retry_decode python2 (PyStr [CHR 0xFF]) = Inl (UnicodeDecodeError ''utf8'')
   \<and> unicode_string python2 (PyStr [CHR 0xFF]) = Inl (UnicodeDecodeError ''utf8'')
   \<and> unicode_string python2 (PyStr [CHR 0xFF]) \<noteq> unicode python2 (PyStr [CHR 0xFF])"
  by code_simp

section \<open>Properties of the mock server launcher\<close>

text \<open>
  Claim C7, as amended. With a type key that is not registered, \<open>main\<close> fails with
  \<open>ValueError('Incorrect server type')\<close> (InvalidArgument) and no server has been
  constructed or started, provided the gevent flag is not set on Python 3; there the
  compatibility gate fails first, with \<open>PyVersionError\<close>, whatever the type key. Without
  flags the options are host 127.0.0.1, port 5000, type \<open>json_api\<close>, debug enabled and
  the three concurrency flags off, and the \<open>json_api\<close> constructor is called with them.
\<close>

theorem main_unregistered_type:
  "(SERVER_TYPES env (SERVER_TYPE opts) = None
      \<and> \<not> (opt_GEVENT opts \<and> cli_IS_PYTHON_3 env) \<longrightarrow>
        main env opts
          = (Some (ValueError ''Incorrect server type''),
             if opt_GEVENT opts then [PatchAll] else []))
   \<and> (opt_GEVENT opts \<and> cli_IS_PYTHON_3 env \<longrightarrow>
        main env opts = (Some (PyVersionError ''gevent lib not supported with python 3''), []))
   \<and> default_options
        = \<lparr>PORT = 5000, HOST = ''127.0.0.1'', MOCKS_DIR = None, SERVER_TYPE = ''json_api'',
           NO_DEBUG = True, opt_MULTIPROCESSING = False, opt_THREADING = False,
           opt_GEVENT = False\<rparr>
   \<and> (SERVER_TYPES env ''json_api'' = Some constructor \<longrightarrow>
        (\<exists>evs. snd (main env default_options)
           = Construct ''json_api''
               \<lparr>mocks_dir = None, host = ''127.0.0.1'', port = 5000, debug = True,
                gevent = False, threading = False, multiprocessing = False\<rparr> # evs))"
  by (simp add: main_def serve_def check_gevent_supported_def except_KeyError_def
        is_KeyError_def default_options_def DEFAULT_PORT_def DEFAULT_HOST_def args_of_def
      split: sum.splits option.splits prod.splits)

theorem main_unregistered_type_witness:
  "main (launcher True) (default_options\<lparr>SERVER_TYPE := ''unknownkey''\<rparr>)
     = (Some (ValueError ''Incorrect server type''), [])
   \<and> main (launcher False) (default_options\<lparr>SERVER_TYPE := ''unknownkey'', opt_GEVENT := True\<rparr>)
     = (Some (ValueError ''Incorrect server type''), [PatchAll])
   \<and> main (launcher True) (default_options\<lparr>opt_GEVENT := True\<rparr>)
     = (Some (PyVersionError ''gevent lib not supported with python 3''), [])
   \<and> (\<exists>evs. snd (main (launcher True) default_options)
           = Construct ''json_api''
               \<lparr>mocks_dir = None, host = ''127.0.0.1'', port = 5000, debug = True,
                gevent = False, threading = False, multiprocessing = False\<rparr> # evs)"
  using
    main_unregistered_type
      [of "launcher True" "default_options\<lparr>SERVER_TYPE := ''unknownkey''\<rparr>"
          "\<lambda>a. Inr ''json_api server''"]
    main_unregistered_type
      [of "launcher False" "default_options\<lparr>SERVER_TYPE := ''unknownkey'', opt_GEVENT := True\<rparr>"
          "\<lambda>a. Inr ''json_api server''"]
    main_unregistered_type
      [of "launcher True" "default_options\<lparr>opt_GEVENT := True\<rparr>" "\<lambda>a. Inr ''json_api server''"]
  by (simp add: launcher_def registry_def default_options_def)

text \<open>
  Claim C7 as stated fails: on Python 3 with \<open>--gevent --type unknownkey\<close> the failure is
  the \<open>PyVersionError\<close> of the compatibility gate, not the \<open>ValueError\<close>.
\<close>

theorem main_gate_first_counterexample:
  "SERVER_TYPES (launcher True) ''unknownkey'' = None
   \<and> main (launcher True) (default_options\<lparr>SERVER_TYPE := ''unknownkey'', opt_GEVENT := True\<rparr>)
       = (Some (PyVersionError ''gevent lib not supported with python 3''), [])"
  by (simp add: launcher_def registry_def default_options_def main_def
        check_gevent_supported_def)

text \<open>
  Claim C10. The handler that reports "Incorrect server type" encloses the construction
  of the server and \<open>serve_forever\<close>: once the compatibility gate is passed, a \<open>KeyError\<close>
  raised by the constructor of a registered type, or by \<open>serve_forever\<close>, leaves \<open>main\<close>
  as \<open>ValueError('Incorrect server type')\<close>.
\<close>

theorem main_KeyError_converted:
  assumes "\<not> (opt_GEVENT opts \<and> cli_IS_PYTHON_3 env)"
    and "SERVER_TYPES env (SERVER_TYPE opts) = Some constructor"
  shows "(constructor (args_of opts) = Inl (KeyError k) \<longrightarrow>
            fst (main env opts) = Some (ValueError ''Incorrect server type''))
   \<and> (constructor (args_of opts) = Inr server \<and> serve_forever env server = Some (KeyError k) \<longrightarrow>
            fst (main env opts) = Some (ValueError ''Incorrect server type''))"
  using assms
  by (auto simp add: main_def serve_def check_gevent_supported_def except_KeyError_def
        is_KeyError_def split: sum.splits option.splits prod.splits)

theorem main_KeyError_converted_witness:
  "fst (main failing_launcher (default_options\<lparr>SERVER_TYPE := ''simple''\<rparr>))
     = Some (ValueError ''Incorrect server type'')
   \<and> fst (main failing_launcher default_options) = Some (ValueError ''Incorrect server type'')"
  using
    main_KeyError_converted
      [of "default_options\<lparr>SERVER_TYPE := ''simple''\<rparr>" failing_launcher
          "\<lambda>a. Inl (KeyError ''mocks'')" "''mocks''" "''json_api server''"]
    main_KeyError_converted
      [of default_options failing_launcher
          "\<lambda>a. Inr ''json_api server''" "''route''" "''json_api server''"]
  by (simp add: failing_launcher_def default_options_def)

section \<open>Properties of run\<close>

subsection \<open>The frame of the broadcasts\<close>

lemma frame_refl: "frame st st"
  by (simp add: frame_def)

lemma frame_trans: "frame st st1 \<Longrightarrow> frame st1 st2 \<Longrightarrow> frame st st2"
  unfolding frame_def
proof (intro conjI)
  assume a: "result st1 = result st \<and> (suite st1)\<lparr>stopped := stopped (suite st)\<rparr> = suite st"
    and b: "result st2 = result st1 \<and> (suite st2)\<lparr>stopped := stopped (suite st1)\<rparr> = suite st1"
  show "result st2 = result st" using a b by simp
  have "(suite st2)\<lparr>stopped := stopped (suite st)\<rparr>
      = ((suite st2)\<lparr>stopped := stopped (suite st1)\<rparr>)\<lparr>stopped := stopped (suite st)\<rparr>"
    by simp
  also have "\<dots> = (suite st1)\<lparr>stopped := stopped (suite st)\<rparr>" using b by simp
  also have "\<dots> = suite st" using a by simp
  finally show "(suite st2)\<lparr>stopped := stopped (suite st)\<rparr> = suite st" .
qed

lemma frame_suite:
  assumes "frame st st'"
  shows "name (suite st') = name (suite st)" "is_run (suite st') = is_run (suite st)"
    "is_build (suite st') = is_build (suite st)"
    "suite_context (suite st') = suite_context (suite st)"
    "class_mro (suite st') = class_mro (suite st)"
    "mount_data (suite st') = mount_data (suite st)"
    "result st' = result st"
proof -
  from assms have e: "suite st = (suite st')\<lparr>stopped := stopped (suite st)\<rparr>"
    and r: "result st' = result st" by (simp_all add: frame_def)
  show "name (suite st') = name (suite st)" using arg_cong [OF e, of name] by simp
  show "is_run (suite st') = is_run (suite st)" using arg_cong [OF e, of is_run] by simp
  show "is_build (suite st') = is_build (suite st)" using arg_cong [OF e, of is_build] by simp
  show "suite_context (suite st') = suite_context (suite st)" using arg_cong [OF e, of suite_context] by simp
  show "class_mro (suite st') = class_mro (suite st)" using arg_cong [OF e, of class_mro] by simp
  show "mount_data (suite st') = mount_data (suite st)" using arg_cong [OF e, of mount_data] by simp
  show "result st' = result st" by (rule r)
qed

lemma frame_layers: "frame st st' \<Longrightarrow> with_match_layers rt (suite st') = with_match_layers rt (suite st)"
  by (simp add: with_match_layers_def frame_suite)

lemma frame_emit: "frame st (emit ev st)"
  by (simp add: frame_def emit_def)

lemma frame_stopped_on: "frame st (stopped_on ph st)"
  by (simp add: frame_def stopped_on_def)

lemma frame_chain: "frame st (snd (chain fs st))"
  by (simp add: frame_def chain_def split: prod.splits)

lemma frame_tagged: "frame st (snd r) \<Longrightarrow> frame st (snd (tagged ph r))"
  by (auto simp add: tagged_def split: prod.splits option.splits
        intro: frame_trans [OF _ frame_stopped_on])

lemma frame_leaving: "frame st (snd r) \<Longrightarrow> frame st (snd (leaving p r))"
  by (auto simp add: leaving_def split: prod.splits option.splits)

lemma frame_chain_emit: "frame st (snd (chain fs (emit ev st)))"
  by (rule frame_trans [OF frame_emit frame_chain])

lemma frame_start_context: "frame st (snd (start_context rt st))"
  unfolding start_context_def
proof (rule frame_tagged)
  let ?c = "chain (setup_callbacks (suite_context (suite st))) (emit (Callbacks ''setup'') st)"
  have f1: "frame st (snd ?c)" by (rule frame_chain_emit)
  show "frame st (snd (case ?c of
          (Some e, st1) \<Rightarrow> (Some e, st1)
        | (None, st1) \<Rightarrow> chain (map on_setup (with_match_layers rt (suite st1)))
              (emit (Broadcast ''on_setup'') st1)))"
  proof (cases ?c)
    case (Pair r st1)
    with f1 have f: "frame st st1" by simp
    show ?thesis
    proof (cases r)
      case None
      with Pair show ?thesis
        by (simp add: frame_trans [OF f frame_chain_emit])
    next
      case (Some e)
      with Pair f show ?thesis by simp
    qed
  qed
qed


lemma frame_stop_context: "frame st (snd (stop_context rt st))"
  unfolding stop_context_def
proof (rule frame_tagged)
  let ?c = "chain (teardown_callbacks (suite_context (suite st))) (emit (Callbacks ''teardown'') st)"
  have f1: "frame st (snd ?c)" by (rule frame_chain_emit)
  show "frame st (snd (case ?c of
          (Some e, st1) \<Rightarrow> (Some e, st1)
        | (None, st1) \<Rightarrow> chain (map on_teardown (with_match_layers rt (suite st1)))
              (emit (Broadcast ''on_teardown'') st1)))"
  proof (cases ?c)
    case (Pair r st1)
    with f1 have f: "frame st st1" by simp
    show ?thesis
    proof (cases r)
      case None
      with Pair show ?thesis
        by (simp add: frame_trans [OF f frame_chain_emit])
    next
      case (Some e)
      with Pair f show ?thesis by simp
    qed
  qed
qed

lemma frame_context_on_run: "frame st (snd (context_on_run rt st))"
  unfolding context_on_run_def by (rule frame_tagged) (rule frame_chain_emit)

lemma frame_context_on_error: "frame st (snd (context_on_error rt e st))"
  unfolding context_on_error_def by (rule frame_tagged) (rule frame_chain_emit)

lemma frame_context_on_mount: "frame st (snd (context_on_mount rt st))"
  unfolding context_on_mount_def by (rule frame_chain_emit)

lemma frame_group_call: "frame st (snd (group_call rt grp st))"
  unfolding group_call_def by (rule frame_chain_emit)

lemma frame_scoped:
  assumes body: "\<And>s. frame s (snd (body s))"
  shows "frame st (snd (scoped rt body st))"
proof (cases "start_context rt st")
  case (Pair r st1)
  have f1: "frame st st1" using frame_start_context [of st rt] Pair by simp
  show ?thesis
  proof (cases r)
    case (Some e)
    have "frame st (snd (leaving (Some e) (stop_context rt st1)))"
      by (rule frame_leaving) (rule frame_trans [OF f1 frame_stop_context])
    with Pair Some f1 show ?thesis by (simp add: scoped_def)
  next
    case None
    obtain r2 st2 where b: "body st1 = (r2, st2)" by (cases "body st1")
    have f2: "frame st st2" using frame_trans [OF f1 body [of st1]] b by simp
    have "frame st (snd (leaving r2 (stop_context rt st2)))"
      by (rule frame_leaving) (rule frame_trans [OF f2 frame_stop_context])
    with Pair None b show ?thesis by (simp add: scoped_def)
  qed
qed

lemma frame_try_body: "frame st (snd (try_body rt grp st))"
proof (cases "context_on_run rt st")
  case (Pair r st1)
  have f1: "frame st st1" using frame_context_on_run [of st rt] Pair by simp
  show ?thesis
  proof (cases r)
    case (Some e)
    with Pair f1 show ?thesis by (simp add: try_body_def)
  next
    case None
    have "frame st (snd (scoped rt (group_call rt grp) st1))"
      by (rule frame_trans [OF f1 frame_scoped]) (rule frame_group_call)
    with Pair None show ?thesis by (simp add: try_body_def)
  qed
qed

lemma add_error_suite: "suite (add_error rt t0 e st) = suite st"
  by (simp add: add_error_def)

lemma is_run_handlers:
  assumes "frame st (snd r)"
  shows "is_run (suite (snd (handlers rt t0 r))) = is_run (suite st)"
proof (cases r)
  case (Pair x st1)
  with assms have f: "frame st st1" by simp
  show ?thesis
  proof (cases x)
    case None
    with Pair f show ?thesis by (simp add: handlers_def frame_suite)
  next
    case (Some e)
    have g: "frame (add_error rt t0 e st1) (snd (context_on_error rt e (add_error rt t0 e st1)))"
      by (rule frame_context_on_error)
    show ?thesis using Pair Some f
      by (simp add: handlers_def frame_suite(2) [OF g] add_error_suite frame_suite)
  qed
qed


lemma make_group_mark_run:
  "make_group py3 (suite (mark_run st)) = make_group py3 (suite st)"
  by (simp add: make_group_def mark_run_def config_of_def split: option.splits)

lemma frame_mark_run_fields:
  "result (mark_run st) = result st" "world (mark_run st) = world st"
  "name (suite (mark_run st)) = name (suite st)"
  "with_match_layers rt (suite (mark_run st)) = with_match_layers rt (suite st)"
  "is_run (suite (mark_run st))"
  by (simp_all add: mark_run_def with_match_layers_def)

lemma call_to_chain_quiet:
  "(\<forall>f \<in> set fs. \<forall>w. fst (f w) = None) \<Longrightarrow> fst (call_to_chain fs w) = None"
proof (induction fs arbitrary: w)
  case Nil
  show ?case by simp
next
  case (Cons f fs)
  obtain r w' where fw: "f w = (r, w')" by (cases "f w")
  from Cons.prems have "fst (f w) = None" by simp
  with fw have r: "r = None" by simp
  from Cons.prems have "\<forall>g \<in> set fs. \<forall>w. fst (g w) = None" by simp
  then have "fst (call_to_chain fs w') = None" by (rule Cons.IH)
  with fw r show ?case by simp
qed

lemma fst_tagged: "fst (tagged ph r) = fst r"
  by (simp add: tagged_def split: prod.splits option.splits)

lemma trace_tagged: "trace (snd (tagged ph r)) = trace (snd r)"
  by (simp add: tagged_def stopped_on_def split: prod.splits option.splits)

lemma chain_fields:
  "fst (chain fs st) = fst (call_to_chain fs (world st))"
  "trace (snd (chain fs st)) = trace st"
  "world (snd (chain fs st)) = snd (call_to_chain fs (world st))"
  by (simp_all add: chain_def split: prod.splits)

lemma context_on_error_fields:
  "fst (context_on_error rt e st)
     = fst (call_to_chain (map (\<lambda>layer. on_error layer e) (with_match_layers rt (suite st)))
              (world st))"
  "trace (snd (context_on_error rt e st)) = trace st @ [ErrorBroadcast e]"
  "result (snd (context_on_error rt e st)) = result st"
proof -
  show "fst (context_on_error rt e st)
     = fst (call_to_chain (map (\<lambda>layer. on_error layer e) (with_match_layers rt (suite st)))
              (world st))"
    by (simp add: context_on_error_def fst_tagged chain_fields emit_def)
  show "trace (snd (context_on_error rt e st)) = trace st @ [ErrorBroadcast e]"
    by (simp add: context_on_error_def trace_tagged chain_fields emit_def)
  show "result (snd (context_on_error rt e st)) = result st"
    by (rule frame_suite(7)) (rule frame_context_on_error)
qed

lemma run_unfold:
  assumes "is_build (suite st)" "\<not> should_stop (result st)" "case_instances (suite st) \<noteq> []"
    and "make_group (IS_PYTHON_3 rt) (suite st) = Inr grp"
  shows "run rt st =
     (case handlers rt (clock rt (world st))
             (try_body rt grp (emit ProxyAcquired (emit GroupConstructed (mark_run st)))) of
        (r, st') \<Rightarrow> (r, emit ProxyReleased st'))"
proof -
  have a: "\<not> should_stop (result (mark_run st))" "case_instances (suite (mark_run st)) \<noteq> []"
    using assms by (simp_all add: mark_run_def)
  show ?thesis
    using assms(1) a
    by (simp add: run_def build_method_def Let_def make_group_mark_run assms(4) with_proxy_def
          frame_mark_run_fields)
qed

subsection \<open>The early return\<close>

text \<open>
  Claim C2. On a built suite \<open>run\<close> leaves the "is run" flag true whatever happens
  afterwards; and when the result says the run should stop, or the suite has no case
  instance, \<open>run\<close> returns normally in the state it was called in with only that flag
  set: the world of the user code, the result and the trace of what the framework did
  (no group constructed or called, no proxy acquired, no broadcast) are unchanged.
\<close>

theorem run_marks_and_returns_early:
  assumes "is_build (suite st)"
  shows "is_run (suite (snd (run rt st)))
     \<and> (should_stop (result st) \<or> case_instances (suite st) = [] \<longrightarrow>
          run rt st = (None, st\<lparr>suite := (suite st)\<lparr>is_run := True\<rparr>\<rparr>)
          \<and> trace (snd (run rt st)) = trace st
          \<and> result (snd (run rt st)) = result st
          \<and> world (snd (run rt st)) = world st)"
proof
  show "should_stop (result st) \<or> case_instances (suite st) = [] \<longrightarrow>
          run rt st = (None, st\<lparr>suite := (suite st)\<lparr>is_run := True\<rparr>\<rparr>)
          \<and> trace (snd (run rt st)) = trace st
          \<and> result (snd (run rt st)) = result st
          \<and> world (snd (run rt st)) = world st"
    using assms by (simp add: run_def build_method_def Let_def mark_run_def)
  show "is_run (suite (snd (run rt st)))"
  proof (cases "should_stop (result st) \<or> case_instances (suite st) = []")
    case True
    with assms show ?thesis by (auto simp add: run_def build_method_def Let_def mark_run_def)
  next
    case False
    show ?thesis
    proof (cases "make_group (IS_PYTHON_3 rt) (suite st)")
      case (Inl e)
      with assms False show ?thesis
        by (simp add: run_def build_method_def Let_def make_group_mark_run frame_mark_run_fields)
    next
      case (Inr grp)
      let ?st0 = "emit ProxyAcquired (emit GroupConstructed (mark_run st))"
      let ?h = "handlers rt (clock rt (world st)) (try_body rt grp ?st0)"
      have "is_run (suite (snd ?h)) = is_run (suite ?st0)"
        by (rule is_run_handlers) (rule frame_try_body)
      then have "is_run (suite (snd ?h))" by (simp add: emit_def frame_mark_run_fields)
      moreover have "run rt st = (case ?h of (r, st') \<Rightarrow> (r, emit ProxyReleased st'))"
        using assms False Inr by (intro run_unfold) simp_all
      ultimately show ?thesis by (simp add: emit_def split: prod.splits)
    qed
  qed
qed

theorem run_marks_and_returns_early_witness:
  "run (runtimeA None) (stateA True (suiteL None None))
     = (None, (stateA True (suiteL None None))
                \<lparr>suite := (suite (stateA True (suiteL None None)))\<lparr>is_run := True\<rparr>\<rparr>)
   \<and> run (runtimeA None) (stateA False ((suiteL None None)\<lparr>case_instances := []\<rparr>))
     = (None, (stateA False ((suiteL None None)\<lparr>case_instances := []\<rparr>))
                \<lparr>suite := (suite (stateA False ((suiteL None None)\<lparr>case_instances := []\<rparr>)))
                   \<lparr>is_run := True\<rparr>\<rparr>)
   \<and> trace (snd (run (runtimeA None) (stateA True (suiteL None None)))) = []
   \<and> errors (result (snd (run (runtimeA None) (stateA True (suiteL None None))))) = []
   \<and> is_run (suite (snd (run (runtimeA (Some (ValueError ''boom'')))
                           (stateA False (suiteL None None)))))"
proof -
  have b: "is_build (suite (stateA True (suiteL None None)))"
    "is_build (suite (stateA False ((suiteL None None)\<lparr>case_instances := []\<rparr>)))"
    "is_build (suite (stateA False (suiteL None None)))"
    "should_stop (result (stateA True (suiteL None None)))"
    "case_instances (suite (stateA False ((suiteL None None)\<lparr>case_instances := []\<rparr>))) = []"
    "trace (stateA True (suiteL None None)) = []"
    "errors (result (stateA True (suiteL None None))) = []"
    by code_simp+
  from run_marks_and_returns_early [OF b(1), of "runtimeA None"]
    run_marks_and_returns_early [OF b(2), of "runtimeA None"]
    run_marks_and_returns_early [OF b(3), of "runtimeA (Some (ValueError ''boom''))"]
    b(4,5,6,7)
  show ?thesis by simp
qed

subsection \<open>The error boundary\<close>

text \<open>
  When no setup or teardown callback and no \<open>on_run\<close>, \<open>on_setup\<close> or \<open>on_teardown\<close> hook
  raises, what leaves the body of the \<open>try\<close> is the outcome of the case group.
\<close>

lemma quiet_pair: "fst p = None \<Longrightarrow> p = (None, snd p)"
  by (cases p) simp

lemma chain_quiet:
  assumes "\<forall>f \<in> set fs. \<forall>w. fst (f w) = None"
  shows "chain fs st = (None, snd (chain fs st))"
  by (rule quiet_pair) (simp add: chain_fields call_to_chain_quiet [OF assms])

lemma start_context_quiet:
  assumes cb: "\<forall>f \<in> set (setup_callbacks (suite_context (suite st))). \<forall>w. fst (f w) = None"
    and ly: "\<forall>l \<in> set (with_match_layers rt (suite st)). \<forall>w. fst (on_setup l w) = None"
  shows "fst (start_context rt st) = None"
proof -
  let ?st0 = "emit (Callbacks ''setup'') st"
  let ?c = "chain (setup_callbacks (suite_context (suite st))) ?st0"
  have c: "?c = (None, snd ?c)" by (rule chain_quiet [OF cb])
  have f: "frame st (snd ?c)" by (rule frame_chain_emit)
  have "\<forall>f \<in> set (map on_setup (with_match_layers rt (suite (snd ?c)))). \<forall>w. fst (f w) = None"
    using ly by (simp add: frame_layers [OF f])
  then have "fst (chain (map on_setup (with_match_layers rt (suite (snd ?c))))
               (emit (Broadcast ''on_setup'') (snd ?c))) = None"
    by (simp only: chain_fields call_to_chain_quiet)
  then show ?thesis
    unfolding start_context_def fst_tagged by (subst c) simp
qed

lemma stop_context_quiet:
  assumes cb: "\<forall>f \<in> set (teardown_callbacks (suite_context (suite st))). \<forall>w. fst (f w) = None"
    and ly: "\<forall>l \<in> set (with_match_layers rt (suite st)). \<forall>w. fst (on_teardown l w) = None"
  shows "fst (stop_context rt st) = None"
proof -
  let ?st0 = "emit (Callbacks ''teardown'') st"
  let ?c = "chain (teardown_callbacks (suite_context (suite st))) ?st0"
  have c: "?c = (None, snd ?c)" by (rule chain_quiet [OF cb])
  have f: "frame st (snd ?c)" by (rule frame_chain_emit)
  have "\<forall>f \<in> set (map on_teardown (with_match_layers rt (suite (snd ?c)))). \<forall>w. fst (f w) = None"
    using ly by (simp add: frame_layers [OF f])
  then have "fst (chain (map on_teardown (with_match_layers rt (suite (snd ?c))))
               (emit (Broadcast ''on_teardown'') (snd ?c))) = None"
    by (simp only: chain_fields call_to_chain_quiet)
  then show ?thesis
    unfolding stop_context_def fst_tagged by (subst c) simp
qed

lemma try_body_group_outcome:
  assumes ly: "\<forall>l \<in> set (with_match_layers rt (suite st)). \<forall>w.
       fst (on_run l w) = None \<and> fst (on_setup l w) = None \<and> fst (on_teardown l w) = None"
    and su: "\<forall>f \<in> set (setup_callbacks (suite_context (suite st))). \<forall>w. fst (f w) = None"
    and td: "\<forall>f \<in> set (teardown_callbacks (suite_context (suite st))). \<forall>w. fst (f w) = None"
    and gr: "\<forall>w. fst (call_group rt grp w) = r"
  shows "fst (try_body rt grp st) = r"
proof -
  let ?r1 = "context_on_run rt st"
  have "\<forall>f \<in> set (map on_run (with_match_layers rt (suite st))). \<forall>w. fst (f w) = None"
    using ly by simp
  then have "fst ?r1 = None"
    by (simp only: context_on_run_def fst_tagged chain_fields call_to_chain_quiet)
  then have r1: "?r1 = (None, snd ?r1)" by (rule quiet_pair)
  have f1: "frame st (snd ?r1)" by (rule frame_context_on_run)
  let ?r2 = "start_context rt (snd ?r1)"
  have "fst ?r2 = None"
    by (rule start_context_quiet) (use su ly in \<open>simp_all add: frame_suite(4) [OF f1] frame_layers [OF f1]\<close>)
  then have r2: "?r2 = (None, snd ?r2)" by (rule quiet_pair)
  have f2: "frame st (snd ?r2)" by (rule frame_trans [OF f1 frame_start_context])
  let ?r3 = "group_call rt grp (snd ?r2)"
  have g: "fst ?r3 = r"
    using gr by (simp add: group_call_def chain_fields split: prod.splits option.splits)
      (metis fst_conv option.exhaust)
  have f3: "frame st (snd ?r3)" by (rule frame_trans [OF f2 frame_group_call])
  let ?r4 = "stop_context rt (snd ?r3)"
  have "fst ?r4 = None"
    by (rule stop_context_quiet) (use td ly in \<open>simp_all add: frame_suite(4) [OF f3] frame_layers [OF f3]\<close>)
  then have r4: "?r4 = (None, snd ?r4)" by (rule quiet_pair)
  have "try_body rt grp st = scoped rt (group_call rt grp) (snd ?r1)"
    unfolding try_body_def by (subst r1) simp
  also have "\<dots> = (case ?r3 of (r, st2) \<Rightarrow> leaving r (stop_context rt st2))"
    unfolding scoped_def by (subst r2) simp
  also have "\<dots> = leaving (fst ?r3) ?r4" by (simp add: case_prod_beta)
  also have "\<dots> = (fst ?r3, snd ?r4)" by (subst r4) (simp add: leaving_def)
  finally show ?thesis using g by simp
qed

lemma handlers_fields:
  assumes f: "frame st0 (snd b)"
  shows "fst b = None \<Longrightarrow> handlers rt t0 b = (None, snd b)"
    "fst b = Some e \<Longrightarrow> ALLOW_RAISED_EXCEPTIONS rt e \<Longrightarrow> handlers rt t0 b = (Some e, snd b)"
    "fst b = Some e \<Longrightarrow> \<not> ALLOW_RAISED_EXCEPTIONS rt e \<Longrightarrow>
       handlers rt t0 b = context_on_error rt e (add_error rt t0 e (snd b))"
  by (cases b; simp add: handlers_def)+

text \<open>
  Claim C1, as amended. Take a run that reaches the guarded block: the suite is built,
  the result does not ask to stop, there are case instances and the group is made.
  \<open>body\<close> is the block (run broadcast, setup, the group, teardown), and the failure
  that leaves it is the last one raised in it. If that failure is in the always-propagate
  set, \<open>run\<close> raises it unchanged, the result is as before and nothing but the release of
  the proxy follows the block. Any other failure is recorded exactly once (the suite, the
  formatted trace, the time elapsed since the start, the error) and the error broadcast
  follows; what \<open>run\<close> then returns is what that broadcast returns: normally when no
  \<open>on_error\<close> hook raises, and otherwise the failure of the hook propagates out of
  \<open>run\<close>. Without a failure nothing is recorded.
\<close>

theorem run_error_boundary:
  assumes built: "is_build (suite st)" and go: "\<not> should_stop (result st)"
    and some: "case_instances (suite st) \<noteq> []"
    and grp: "make_group (IS_PYTHON_3 rt) (suite st) = Inr grp"
    and body: "body = try_body rt grp (emit ProxyAcquired (emit GroupConstructed (mark_run st)))"
  shows
    "(fst body = Some e \<and> ALLOW_RAISED_EXCEPTIONS rt e \<longrightarrow>
        fst (run rt st) = Some e \<and> result (snd (run rt st)) = result st
        \<and> trace (snd (run rt st)) = trace (snd body) @ [ProxyReleased])
     \<and> (fst body = Some e \<and> \<not> ALLOW_RAISED_EXCEPTIONS rt e \<longrightarrow>
        errors (result (snd (run rt st)))
          = errors (result st)
            @ [(name (suite st), format_exc rt e,
                clock rt (world (snd body)) - clock rt (world st), e)]
        \<and> trace (snd (run rt st)) = trace (snd body) @ [ErrorBroadcast e, ProxyReleased]
        \<and> fst (run rt st)
          = fst (call_to_chain
                   (map (\<lambda>layer. on_error layer e) (with_match_layers rt (suite st)))
                   (world (snd body)))
        \<and> ((\<forall>layer \<in> set (with_match_layers rt (suite st)). \<forall>w. fst (on_error layer e w) = None)
             \<longrightarrow> fst (run rt st) = None))
     \<and> (fst body = None \<longrightarrow>
        fst (run rt st) = None \<and> result (snd (run rt st)) = result st
        \<and> trace (snd (run rt st)) = trace (snd body) @ [ProxyReleased])"
proof -
  let ?st0 = "emit ProxyAcquired (emit GroupConstructed (mark_run st))"
  let ?t0 = "clock rt (world st)"
  have run: "run rt st = (case handlers rt ?t0 body of (r, st') \<Rightarrow> (r, emit ProxyReleased st'))"
    unfolding body using built go some grp by (rule run_unfold)
  have fr0: "frame (mark_run st) ?st0"
    by (rule frame_trans [OF frame_emit frame_emit])
  have fr: "frame ?st0 (snd body)" unfolding body by (rule frame_try_body)
  have fr': "frame (mark_run st) (snd body)" by (rule frame_trans [OF fr0 fr])
  have res: "result (snd body) = result st"
    using frame_suite(7) [OF fr'] by (simp add: frame_mark_run_fields)
  have nm: "name (suite (snd body)) = name (suite st)"
    using frame_suite(1) [OF fr'] by (simp add: frame_mark_run_fields)
  have ly: "with_match_layers rt (suite (snd body)) = with_match_layers rt (suite st)"
    using frame_layers [OF fr', of rt] by (simp add: frame_mark_run_fields)
  have allowed: "fst (run rt st) = Some e \<and> result (snd (run rt st)) = result st
        \<and> trace (snd (run rt st)) = trace (snd body) @ [ProxyReleased]"
    if "fst body = Some e" "ALLOW_RAISED_EXCEPTIONS rt e"
    using handlers_fields(2) [OF fr that, of ?t0] by (simp add: run emit_def res)
  have none: "fst (run rt st) = None \<and> result (snd (run rt st)) = result st
        \<and> trace (snd (run rt st)) = trace (snd body) @ [ProxyReleased]"
    if "fst body = None"
    using handlers_fields(1) [OF fr that, of rt ?t0] by (simp add: run emit_def res)
  have other: "errors (result (snd (run rt st)))
          = errors (result st)
            @ [(name (suite st), format_exc rt e, clock rt (world (snd body)) - ?t0, e)]
        \<and> trace (snd (run rt st)) = trace (snd body) @ [ErrorBroadcast e, ProxyReleased]
        \<and> fst (run rt st)
          = fst (call_to_chain
                   (map (\<lambda>layer. on_error layer e) (with_match_layers rt (suite st)))
                   (world (snd body)))"
    if "fst body = Some e" "\<not> ALLOW_RAISED_EXCEPTIONS rt e"
  proof -
    let ?a = "add_error rt ?t0 e (snd body)"
    have h: "handlers rt ?t0 body = context_on_error rt e ?a"
      by (rule handlers_fields(3) [OF fr that])
    have a: "suite ?a = suite (snd body)" "world ?a = world (snd body)"
      "trace ?a = trace (snd body)"
      "errors (result ?a) = errors (result st)
            @ [(name (suite st), format_exc rt e, clock rt (world (snd body)) - ?t0, e)]"
      by (simp_all add: add_error_def res nm)
    show ?thesis
      by (simp add: run h emit_def context_on_error_fields a ly case_prod_beta)
  qed
  have quiet: "fst (run rt st) = None"
    if "fst body = Some e" "\<not> ALLOW_RAISED_EXCEPTIONS rt e"
      "\<forall>layer \<in> set (with_match_layers rt (suite st)). \<forall>w. fst (on_error layer e w) = None"
  proof -
    have "fst (call_to_chain
                   (map (\<lambda>layer. on_error layer e) (with_match_layers rt (suite st)))
                   (world (snd body))) = None"
      by (rule call_to_chain_quiet) (use that(3) in simp)
    with other [OF that(1,2)] show ?thesis by simp
  qed
  show ?thesis using allowed none other quiet by blast
qed

theorem run_error_boundary_witness:
  "fst (run (runtimeA (Some (ValueError ''boom''))) (stateA False (suiteL None None))) = None
   \<and> errors (result (snd (run (runtimeA (Some (ValueError ''boom'')))
                            (stateA False (suiteL None None)))))
       = [(''A'', ''Traceback (most recent call last)'', 6, ValueError ''boom'')]
   \<and> fst (run (runtimeA (Some interrupt)) (stateA False (suiteL None None))) = Some interrupt
   \<and> errors (result (snd (run (runtimeA (Some interrupt)) (stateA False (suiteL None None)))))
       = []
   \<and> fst (run (runtimeA None) (stateA False (suiteL None None))) = None"
proof -
  let ?st = "stateA False (suiteL None None)"
  let ?grp = "DefaultCaseGroup [''CaseX.test_y''] cfgA :: (string, string) CaseGroup"
  let ?body = "\<lambda>rt. try_body rt ?grp (emit ProxyAcquired (emit GroupConstructed (mark_run ?st)))"
  have built: "is_build (suite ?st)" and go: "\<not> should_stop (result ?st)"
    and some: "case_instances (suite ?st) \<noteq> []"
    by code_simp+
  have grp: "make_group (IS_PYTHON_3 (runtimeA r)) (suite ?st) = Inr ?grp" for r
    by (simp add: runtimeA_def stateA_def suiteL_def builtA_def suiteA_def make_group_def
          config_of_def cfgA_def)
  note th = run_error_boundary [OF built go some grp refl]
  have b1: "fst (?body (runtimeA (Some (ValueError ''boom'')))) = Some (ValueError ''boom'')"
    and b2: "fst (?body (runtimeA (Some interrupt))) = Some interrupt"
    and b3: "fst (?body (runtimeA None)) = None"
    by code_simp+
  have a1: "\<not> ALLOW_RAISED_EXCEPTIONS (runtimeA (Some (ValueError ''boom''))) (ValueError ''boom'')"
    and a2: "ALLOW_RAISED_EXCEPTIONS (runtimeA (Some interrupt)) interrupt"
    by code_simp+
  have q: "\<forall>layer \<in> set (with_match_layers (runtimeA r) (suite ?st)).
             \<forall>w. fst (on_error layer e w) = None" for r e
    by (simp add: with_match_layers_def context_layers_def runtimeA_def stateA_def suiteL_def
          layerA_def tick_def)
  have d: "name (suite ?st) = ''A''"
    "format_exc (runtimeA (Some (ValueError ''boom''))) (ValueError ''boom'')
       = ''Traceback (most recent call last)''"
    "clock (runtimeA (Some (ValueError ''boom'')))
         (world (snd (?body (runtimeA (Some (ValueError ''boom''))))))
       - clock (runtimeA (Some (ValueError ''boom''))) (world ?st) = 6"
    "errors (result ?st) = []" "result ?st = \<lparr>should_stop = False, errors = []\<rparr>"
    by code_simp+
  from th [of "Some (ValueError ''boom'')" "ValueError ''boom''"] b1 a1
    q [of "Some (ValueError ''boom'')" "ValueError ''boom''"]
  have x: "errors (result (snd (run (runtimeA (Some (ValueError ''boom''))) ?st)))
       = errors (result ?st)
         @ [(name (suite ?st),
             format_exc (runtimeA (Some (ValueError ''boom''))) (ValueError ''boom''),
             clock (runtimeA (Some (ValueError ''boom'')))
                 (world (snd (?body (runtimeA (Some (ValueError ''boom''))))))
               - clock (runtimeA (Some (ValueError ''boom''))) (world ?st),
             ValueError ''boom'')]"
    and y: "fst (run (runtimeA (Some (ValueError ''boom''))) ?st) = None"
    by blast+
  have r1: "fst (run (runtimeA (Some (ValueError ''boom''))) ?st) = None
     \<and> errors (result (snd (run (runtimeA (Some (ValueError ''boom''))) ?st)))
       = [(''A'', ''Traceback (most recent call last)'', 6, ValueError ''boom'')]"
    using x y by (simp add: d)
  from th [of "Some interrupt" interrupt] b2 a2
  have r2: "fst (run (runtimeA (Some interrupt)) ?st) = Some interrupt
     \<and> errors (result (snd (run (runtimeA (Some interrupt)) ?st))) = []"
    by (simp add: d)
  from th [of None interrupt] b3
  have r3: "fst (run (runtimeA None) ?st) = None" by simp
  from r1 r2 r3 show ?thesis by simp
qed

text \<open>
  Claim C1 as stated fails. The group raises the keyboard interrupt, which is in the
  always-propagate set; on the way out the teardown callback raises an \<open>IOError\<close>, which
  replaces it and is recorded; the \<open>on_error\<close> hook of the layer then raises a
  \<open>RuntimeError\<close>, and that is what \<open>run\<close> raises. So the failure of the group did not
  propagate out of \<open>run\<close>, and \<open>run\<close> did not return normally after recording the other.
\<close>

theorem run_error_boundary_counterexample:
  "ALLOW_RAISED_EXCEPTIONS (runtimeA (Some interrupt)) interrupt
   \<and> call_group (runtimeA (Some interrupt)) (DefaultCaseGroup [''CaseX.test_y''] cfgA) 3
       = (Some interrupt, 4)
   \<and> \<not> ALLOW_RAISED_EXCEPTIONS (runtimeA (Some interrupt)) (OtherError ''IOError'' ''teardown'')
   \<and> fst (run (runtimeA (Some interrupt))
        (stateA False (suiteL (Some (OtherError ''IOError'' ''teardown''))
                         (Some (OtherError ''RuntimeError'' ''on_error hook'')))))
       = Some (OtherError ''RuntimeError'' ''on_error hook'')
   \<and> fst (run (runtimeA (Some interrupt))
        (stateA False (suiteL (Some (OtherError ''IOError'' ''teardown''))
                         (Some (OtherError ''RuntimeError'' ''on_error hook'')))))
       \<noteq> Some interrupt
   \<and> fst (run (runtimeA (Some interrupt))
        (stateA False (suiteL (Some (OtherError ''IOError'' ''teardown''))
                         (Some (OtherError ''RuntimeError'' ''on_error hook'')))))
       \<noteq> None
   \<and> errors (result (snd (run (runtimeA (Some interrupt))
        (stateA False (suiteL (Some (OtherError ''IOError'' ''teardown''))
                         (Some (OtherError ''RuntimeError'' ''on_error hook'')))))))
       = [(''A'', ''Traceback (most recent call last)'', 5, OtherError ''IOError'' ''teardown'')]
   \<and> trace (snd (run (runtimeA (Some interrupt))
        (stateA False (suiteL (Some (OtherError ''IOError'' ''teardown''))
                         (Some (OtherError ''RuntimeError'' ''on_error hook''))))))
       = [GroupConstructed, ProxyAcquired, Broadcast ''on_run'', Callbacks ''setup'',
          Broadcast ''on_setup'', GroupCalled, Callbacks ''teardown'',
          ErrorBroadcast (OtherError ''IOError'' ''teardown''), ProxyReleased]"
  by code_simp

section \<open>Properties of build, mount_to and ext\<close>

subsection \<open>What build changes\<close>

lemma shape_refl: "\<exists>bs. s = s\<lparr>case_instances := bs\<rparr>"
  by (rule exI [of _ "case_instances s"]) simp

lemma shape_trans:
  "\<exists>bs. s1 = s\<lparr>case_instances := bs\<rparr> \<Longrightarrow> \<exists>bs. s2 = s1\<lparr>case_instances := bs\<rparr>
     \<Longrightarrow> \<exists>bs. s2 = s\<lparr>case_instances := bs\<rparr>"
  by auto

lemma extend_instances_shape:
  "\<exists>bs. snd (extend_instances ld cls mn s) = s\<lparr>case_instances := bs\<rparr>"
  by (auto simp add: extend_instances_def shape_refl split: sum.splits)

lemma build_classes_shape:
  "\<exists>bs. snd (build_classes ld ks s) = s\<lparr>case_instances := bs\<rparr>"
proof (induction ks arbitrary: s)
  case Nil
  show ?case by (simp add: shape_refl)
next
  case (Cons k ks)
  obtain r s1 where e: "extend_instances ld k None s = (r, s1)"
    by (cases "extend_instances ld k None s")
  have s1: "\<exists>bs. s1 = s\<lparr>case_instances := bs\<rparr>"
    using extend_instances_shape [of ld k None s] e by simp
  show ?case
  proof (cases r)
    case None
    have "\<exists>bs. snd (build_classes ld ks s1) = s\<lparr>case_instances := bs\<rparr>"
      by (rule shape_trans [OF s1 Cons.IH])
    with e None show ?thesis by simp
  next
    case (Some x)
    with e s1 show ?thesis by simp
  qed
qed

lemma build_cases_shape:
  "\<exists>bs. snd (build_cases ld cn tn s) = s\<lparr>case_instances := bs\<rparr>"
  by (auto simp add: build_cases_def shape_refl extend_instances_shape build_classes_shape
        split: sum.splits)

lemma build_by_rules_shape:
  "\<exists>bs. snd (build_by_rules ld rules s) = s\<lparr>case_instances := bs\<rparr>"
proof (induction rules arbitrary: s)
  case Nil
  show ?case by (simp add: shape_refl)
next
  case (Cons rule rules)
  obtain r s1 where e: "build_cases ld (case_name rule) (test_name rule) s = (r, s1)"
    by (cases "build_cases ld (case_name rule) (test_name rule) s")
  have s1: "\<exists>bs. s1 = s\<lparr>case_instances := bs\<rparr>"
    using build_cases_shape [of ld "case_name rule" "test_name rule" s] e by simp
  show ?case
  proof (cases r)
    case None
    have "\<exists>bs. snd (build_by_rules ld rules s1) = s\<lparr>case_instances := bs\<rparr>"
      by (rule shape_trans [OF s1 Cons.IH])
    with e None show ?thesis by simp
  next
    case (Some x)
    with e s1 show ?thesis by simp
  qed
qed

lemma install_extensions_keeps:
  "m n \<noteq> None \<Longrightarrow> snd (install_extensions get ns m) n \<noteq> None"
  by (induction ns arbitrary: m) (auto split: option.splits sum.splits)

lemma install_extensions_all:
  "fst (install_extensions get ns m) = None \<Longrightarrow> n \<in> set ns
     \<Longrightarrow> snd (install_extensions get ns m) n \<noteq> None"
proof (induction ns arbitrary: m)
  case Nil
  then show ?case by simp
next
  case (Cons a ns)
  show ?case
  proof (cases "m a")
    case (Some x)
    show ?thesis
    proof (cases "n = a")
      case True
      with Some show ?thesis using install_extensions_keeps [of m a get ns] by simp
    next
      case False
      with Cons Some show ?thesis by simp
    qed
  next
    case None
    show ?thesis
    proof (cases "get a")
      case (Inl e)
      with Cons.prems None show ?thesis by simp
    next
      case (Inr x)
      show ?thesis
      proof (cases "n = a")
        case True
        with None Inr show ?thesis
          using install_extensions_keeps [of "m(a \<mapsto> x)" a get ns] by simp
      next
        case False
        with Cons None Inr show ?thesis by simp
      qed
    qed
  qed
qed


lemma build_shapeI:
  assumes "b = (r, t)"
    and "t = s\<lparr>suite_context := (suite_context s)\<lparr>extensions := m\<rparr>, case_instances := bs,
               is_build := (is_build s \<or> r = None)\<rparr>"
    and "r = None \<Longrightarrow> is_mount s \<and> (\<forall>n \<in> set (require (suite_context s)). m n \<noteq> None)"
  shows "\<exists>m bs. snd b
       = s\<lparr>suite_context := (suite_context s)\<lparr>extensions := m\<rparr>, case_instances := bs,
           is_build := (is_build s \<or> fst b = None)\<rparr>
     \<and> (fst b = None \<longrightarrow>
          is_mount s \<and> (\<forall>n \<in> set (require (suite_context s)). m n \<noteq> None))"
proof (intro exI [of _ m] exI [of _ bs] conjI impI)
  show "snd b = s\<lparr>suite_context := (suite_context s)\<lparr>extensions := m\<rparr>, case_instances := bs,
           is_build := (is_build s \<or> fst b = None)\<rparr>"
    using assms(1,2) by simp
  show "is_mount s" if "fst b = None" using that assms(1,3) by simp
  show "\<forall>n \<in> set (require (suite_context s)). m n \<noteq> None" if "fst b = None"
    using that assms(1,3) by simp
qed

lemma build_shape:
  "\<exists>m bs. snd (build ld cn tn sh s)
       = s\<lparr>suite_context := (suite_context s)\<lparr>extensions := m\<rparr>, case_instances := bs,
           is_build := (is_build s \<or> fst (build ld cn tn sh s) = None)\<rparr>
     \<and> (fst (build ld cn tn sh s) = None \<longrightarrow>
          is_mount s \<and> (\<forall>n \<in> set (require (suite_context s)). m n \<noteq> None))"
proof (cases "is_mount s")
  case False
  then have "build ld cn tn sh s = (Some NotMounted, s)"
    by (simp add: build_def mount_method_def)
  then show ?thesis
    by (rule build_shapeI [where m = "extensions (suite_context s)" and bs = "case_instances s"])
      simp_all
next
  case mounted: True
  show ?thesis
  proof (cases "is_build s")
    case True
    with mounted have "build ld cn tn sh s = (Some (already_built s), s)"
      by (simp add: build_def mount_method_def)
    then show ?thesis
      by (rule build_shapeI [where m = "extensions (suite_context s)" and bs = "case_instances s"])
        (simp_all add: True)
  next
    case unbuilt: False
    obtain r1 m where inst: "install_extensions (extensions_get ld) (require (suite_context s))
                  (extensions (suite_context s)) = (r1, m)"
      by (cases "install_extensions (extensions_get ld) (require (suite_context s))
                  (extensions (suite_context s))")
    define s1 where "s1 = s\<lparr>suite_context := (suite_context s)\<lparr>extensions := m\<rparr>\<rparr>"
    show ?thesis
    proof (cases r1)
      case (Some e)
      with mounted unbuilt inst have "build ld cn tn sh s = (Some e, s1)"
        by (simp add: build_def mount_method_def s1_def)
      then show ?thesis
        by (rule build_shapeI [where m = m and bs = "case_instances s"])
          (simp_all add: s1_def unbuilt)
    next
      case None
      have all: "\<forall>n \<in> set (require (suite_context s)). m n \<noteq> None"
        using install_extensions_all [of "extensions_get ld" "require (suite_context s)"
            "extensions (suite_context s)"] inst None by simp
      define inner where "inner =
        (if build_rules (suite_context s1) \<noteq> [] \<and> \<not> truthy cn
         then build_by_rules ld (build_rules (suite_context s1)) s1
         else build_cases ld cn tn s1)"
      obtain r2 s2 where inner: "inner = (r2, s2)" by (cases inner)
      have "\<exists>bs. snd inner = s1\<lparr>case_instances := bs\<rparr>"
        by (simp add: inner_def build_by_rules_shape build_cases_shape)
      then obtain bs where s2: "s2 = s1\<lparr>case_instances := bs\<rparr>" using inner by auto
      have b: "build ld cn tn sh s =
         (case inner of
            (Some e, s2) \<Rightarrow> (Some e, s2)
          | (None, s2) \<Rightarrow>
              (case sh of
                 None \<Rightarrow> (None, s2\<lparr>is_build := True\<rparr>)
               | Some f \<Rightarrow>
                   (case f (case_instances s2) of
                      (Some e, boxes) \<Rightarrow> (Some e, s2\<lparr>case_instances := boxes\<rparr>)
                    | (None, boxes) \<Rightarrow>
                        (None, s2\<lparr>case_instances := boxes, is_build := True\<rparr>))))"
        using mounted unbuilt inst None
        by (simp add: build_def mount_method_def inner_def s1_def Let_def)
      show ?thesis
      proof (cases r2)
        case (Some e)
        with b inner have "build ld cn tn sh s = (Some e, s2)" by simp
        then show ?thesis
          by (rule build_shapeI [where m = m and bs = bs]) (simp_all add: s2 s1_def unbuilt)
      next
        case r2: None
        show ?thesis
        proof (cases sh)
          case None
          with b inner r2 have "build ld cn tn sh s = (None, s2\<lparr>is_build := True\<rparr>)" by simp
          then show ?thesis
            by (rule build_shapeI [where m = m and bs = bs]) (simp_all add: s2 s1_def all mounted)
        next
          case (Some f)
          obtain r3 boxes where f: "f (case_instances s2) = (r3, boxes)"
            by (cases "f (case_instances s2)")
          show ?thesis
          proof (cases r3)
            case None
            with b inner r2 Some f
            have "build ld cn tn sh s = (None, s2\<lparr>case_instances := boxes, is_build := True\<rparr>)"
              by simp
            then show ?thesis
              by (rule build_shapeI [where m = m and bs = boxes])
                (simp_all add: s2 s1_def all mounted)
          next
            case e: (Some e)
            with b inner r2 Some f
            have "build ld cn tn sh s = (Some e, s2\<lparr>case_instances := boxes\<rparr>)" by simp
            then show ?thesis
              by (rule build_shapeI [where m = m and bs = boxes])
                (simp_all add: s2 s1_def unbuilt)
          qed
        qed
      qed
    qed
  qed
qed

lemma build_fields:
  "class_name (snd (build ld cn tn sh s)) = class_name s"
  "mount_data (snd (build ld cn tn sh s)) = mount_data s"
  "require (suite_context (snd (build ld cn tn sh s))) = require (suite_context s)"
  "is_build (snd (build ld cn tn sh s)) = (is_build s \<or> fst (build ld cn tn sh s) = None)"
  "fst (build ld cn tn sh s) = None \<Longrightarrow> is_mount s"
  "fst (build ld cn tn sh s) = None \<Longrightarrow> n \<in> set (require (suite_context s))
     \<Longrightarrow> extensions (suite_context (snd (build ld cn tn sh s))) n \<noteq> None"
proof -
  from build_shape [of ld cn tn sh s] obtain m where
    "\<exists>bs. snd (build ld cn tn sh s)
       = s\<lparr>suite_context := (suite_context s)\<lparr>extensions := m\<rparr>, case_instances := bs,
           is_build := (is_build s \<or> fst (build ld cn tn sh s) = None)\<rparr>
     \<and> (fst (build ld cn tn sh s) = None \<longrightarrow>
          is_mount s \<and> (\<forall>n \<in> set (require (suite_context s)). m n \<noteq> None))" ..
  then obtain bs where c:
    "snd (build ld cn tn sh s)
       = s\<lparr>suite_context := (suite_context s)\<lparr>extensions := m\<rparr>, case_instances := bs,
           is_build := (is_build s \<or> fst (build ld cn tn sh s) = None)\<rparr>
     \<and> (fst (build ld cn tn sh s) = None \<longrightarrow>
          is_mount s \<and> (\<forall>n \<in> set (require (suite_context s)). m n \<noteq> None))" ..
  note e = conjunct1 [OF c] and a = conjunct2 [OF c]
  show "class_name (snd (build ld cn tn sh s)) = class_name s" by (subst e) simp
  show "mount_data (snd (build ld cn tn sh s)) = mount_data s" by (subst e) simp
  show "require (suite_context (snd (build ld cn tn sh s))) = require (suite_context s)"
    by (subst e) simp
  show "is_build (snd (build ld cn tn sh s)) = (is_build s \<or> fst (build ld cn tn sh s) = None)"
    by (subst e) simp
  show "fst (build ld cn tn sh s) = None \<Longrightarrow> is_mount s" using a by simp
  show "fst (build ld cn tn sh s) = None \<Longrightarrow> n \<in> set (require (suite_context s))
     \<Longrightarrow> extensions (suite_context (snd (build ld cn tn sh s))) n \<noteq> None"
    using a by (subst e) simp
qed


text \<open>A suite that \<open>build\<close> has built is mounted.\<close>

lemma built_is_mounted:
  assumes "fst (build ld cn tn sh s) = None"
  shows "is_build (snd (build ld cn tn sh s))"
    and "\<exists>cfg. mount_data (snd (build ld cn tn sh s)) = Some cfg"
  using assms build_fields(5) [OF assms]
  by (simp_all add: build_fields(2,4) is_mount_def)

lemma mount_to_fields:
  "is_mount (suite (snd (snd (mount_to rt (p, st)))))"
  "name (suite (snd (snd (mount_to rt (p, st))))) = name (suite st)"
proof -
  let ?st1 = "st\<lparr>suite := (suite st)\<lparr>mount_data := Some (program_config p)\<rparr>\<rparr>"
  have f: "frame ?st1 (snd (context_on_mount rt ?st1))" by (rule frame_context_on_mount)
  have m: "snd (snd (mount_to rt (p, st)))
      = (if is_mount (suite st) then st else snd (context_on_mount rt ?st1))"
    by (simp add: mount_to_def case_prod_beta)
  show "is_mount (suite (snd (snd (mount_to rt (p, st)))))"
    using frame_suite(6) [OF f] by (simp add: m is_mount_def)
  show "name (suite (snd (snd (mount_to rt (p, st))))) = name (suite st)"
    using frame_suite(1) [OF f] by (simp add: m)
qed

text \<open>
  Claim C3. After a \<open>build\<close> that succeeded, any further \<open>build\<close> fails with the
  \<open>RuntimeError\<close> "is already built" (AlreadyBuilt); after a \<open>mount_to\<close>, whatever its
  outcome, any further \<open>mount_to\<close> fails with the \<open>RuntimeError\<close> "already mount"
  (AlreadyMounted). The built flag is set by \<open>build\<close> exactly when it returns normally,
  that is after the installation of the extensions, the construction of the case
  instances and the shuffle: a suite that was not built is still not built after a
  \<open>build\<close> that raised in any of them.
\<close>

theorem build_and_mount_only_once:
  "(fst (build ld cn tn sh s) = None \<longrightarrow>
      fst (build ld' cn' tn' sh' (snd (build ld cn tn sh s))) = Some (already_built s))
   \<and> is_build (snd (build ld cn tn sh s)) = (is_build s \<or> fst (build ld cn tn sh s) = None)
   \<and> fst (mount_to rt' (program', snd (snd (mount_to rt (program, st)))))
       = Some (already_mount (suite st))"
proof (intro conjI impI)
  assume ok: "fst (build ld cn tn sh s) = None"
  let ?s' = "snd (build ld cn tn sh s)"
  have "is_mount ?s'" using build_fields(5) [OF ok] by (simp add: is_mount_def build_fields(2))
  moreover have "is_build ?s'" using ok by (simp add: build_fields(4))
  moreover have "already_built ?s' = already_built s"
    by (simp add: already_built_def build_fields(1))
  ultimately show "fst (build ld' cn' tn' sh' ?s') = Some (already_built s)"
    by (simp add: build_def mount_method_def)
next
  show "is_build (snd (build ld cn tn sh s)) = (is_build s \<or> fst (build ld cn tn sh s) = None)"
    by (rule build_fields(4))
next
  let ?st' = "snd (snd (mount_to rt (program, st)))"
  have "already_mount (suite ?st') = already_mount (suite st)"
    by (simp add: already_mount_def mount_to_fields(2))
  then show "fst (mount_to rt' (program', ?st')) = Some (already_mount (suite st))"
    using mount_to_fields(1) [of rt program st] by (simp add: mount_to_def)
qed

theorem build_and_mount_only_once_witness:
  \<open>fst (build loaderA None None None mountedA) = None
   \<and> fst (build loaderA None None None (snd (build loaderA None None None mountedA)))
       = Some (RuntimeError ''Suite "Suite" is already built'')
   \<and> is_build (snd (build loaderA None None None mountedA))
   \<and> fst (build loaderA None None (Some failing_shuffle) mountedA)
       = Some (OtherError ''TypeError'' ''shuffle'')
   \<and> \<not> is_build (snd (build loaderA None None (Some failing_shuffle) mountedA))
   \<and> fst (build loaderA (Some ''CaseZ'') None None mountedA)
       = Some (OtherError ''LoaderError'' ''CaseZ'')
   \<and> \<not> is_build (snd (build loaderA (Some ''CaseZ'') None None mountedA))
   \<and> fst (build loaderA None None None
             (mountedA\<lparr>suite_context := contextA\<lparr>require := [''ext1'', ''ext9'']\<rparr>\<rparr>))
       = Some (OtherError ''ExtensionNotFound'' ''ext9'')
   \<and> \<not> is_build (snd (build loaderA None None None
             (mountedA\<lparr>suite_context := contextA\<lparr>require := [''ext1'', ''ext9'']\<rparr>\<rparr>)))
   \<and> fst (mount_to (runtimeA None)
             (programA, snd (snd (mount_to (runtimeA None) (programA, stateA False suiteA)))))
       = Some (RuntimeError ''Suite "A" already mount'')\<close>
proof -
  let ?s9 = "mountedA\<lparr>suite_context := contextA\<lparr>require := [''ext1'', ''ext9'']\<rparr>\<rparr>"
  have v: "fst (build loaderA None None None mountedA) = None"
    "fst (build loaderA None None (Some failing_shuffle) mountedA)
       = Some (OtherError ''TypeError'' ''shuffle'')"
    "fst (build loaderA (Some ''CaseZ'') None None mountedA)
       = Some (OtherError ''LoaderError'' ''CaseZ'')"
    "fst (build loaderA None None None ?s9) = Some (OtherError ''ExtensionNotFound'' ''ext9'')"
    by code_simp+
  have w: "\<not> is_build mountedA" "\<not> is_build ?s9"
    \<open>already_built mountedA = RuntimeError ''Suite "Suite" is already built''\<close>
    \<open>already_mount (suite (stateA False suiteA)) = RuntimeError ''Suite "A" already mount''\<close>
    by code_simp+
  from build_and_mount_only_once
      [of loaderA None None None mountedA loaderA None None None "runtimeA None" programA
          "runtimeA None" programA "stateA False suiteA"]
    build_and_mount_only_once
      [of loaderA None None "Some failing_shuffle" mountedA loaderA None None None
          "runtimeA None" programA "runtimeA None" programA "stateA False suiteA"]
    build_and_mount_only_once
      [of loaderA "Some ''CaseZ''" None None mountedA loaderA None None None
          "runtimeA None" programA "runtimeA None" programA "stateA False suiteA"]
    build_and_mount_only_once
      [of loaderA None None None ?s9 loaderA None None None
          "runtimeA None" programA "runtimeA None" programA "stateA False suiteA"]
  show ?thesis by (simp add: v w)
qed

text \<open>
  Claim C5. \<open>ext\<close> is build-guarded: before the suite is built it fails with NotBuilt.
  On a built suite it fails with \<open>ExtensionNotRequired\<close> for a name that is not in the
  required list of the context, and otherwise returns what the extensions of the
  context hold for the name. After a \<open>build\<close> that succeeded, with any loader and so any
  process-wide registry, a name that is not required still fails with
  \<open>ExtensionNotRequired\<close>, and a required name yields an instance.
\<close>

theorem ext_cases:
  "(\<not> is_build s \<longrightarrow> ext s n = Inl NotBuilt)
   \<and> (is_build s \<and> n \<notin> set (require (suite_context s)) \<longrightarrow>
        ext s n = Inl (ExtensionNotRequired n))
   \<and> (is_build s \<and> n \<in> set (require (suite_context s)) \<longrightarrow>
        ext s n = Inr (extensions (suite_context s) n))
   \<and> (fst (build ld cn tn sh s') = None \<and> n \<notin> set (require (suite_context s')) \<longrightarrow>
        ext (snd (build ld cn tn sh s')) n = Inl (ExtensionNotRequired n))
   \<and> (fst (build ld cn tn sh s') = None \<and> n \<in> set (require (suite_context s')) \<longrightarrow>
        (\<exists>x. ext (snd (build ld cn tn sh s')) n = Inr (Some x)))"
proof (intro conjI impI)
  show "ext s n = Inl NotBuilt" if "\<not> is_build s"
    using that by (simp add: ext_def build_method_def)
  show "ext s n = Inl (ExtensionNotRequired n)"
    if "is_build s \<and> n \<notin> set (require (suite_context s))"
    using that by (simp add: ext_def build_method_def)
  show "ext s n = Inr (extensions (suite_context s) n)"
    if "is_build s \<and> n \<in> set (require (suite_context s))"
    using that by (simp add: ext_def build_method_def)
  show "ext (snd (build ld cn tn sh s')) n = Inl (ExtensionNotRequired n)"
    if "fst (build ld cn tn sh s') = None \<and> n \<notin> set (require (suite_context s'))"
    using that by (simp add: ext_def build_method_def build_fields(3,4))
  show "\<exists>x. ext (snd (build ld cn tn sh s')) n = Inr (Some x)"
    if "fst (build ld cn tn sh s') = None \<and> n \<in> set (require (suite_context s'))"
    using that build_fields(6) [of ld cn tn sh s' n]
    by (auto simp add: ext_def build_method_def build_fields(3,4))
qed

theorem ext_cases_witness:
  "ext suiteA ''ext1'' = Inl NotBuilt
   \<and> ext (builtA cfgA) ''ext2'' = Inl (ExtensionNotRequired ''ext2'')
   \<and> ext (builtA cfgA) ''ext1'' = Inr (Some ''instance of ext1'')
   \<and> extensions_get loaderA ''ext2'' = Inr ''instance of ext2''
   \<and> ext (snd (build loaderA None None None mountedA)) ''ext2''
       = Inl (ExtensionNotRequired ''ext2'')
   \<and> (\<exists>x. ext (snd (build loaderA None None None mountedA)) ''ext1'' = Inr (Some x))"
proof -
  have v: "\<not> is_build suiteA" "is_build (builtA cfgA)"
    "''ext2'' \<notin> set (require (suite_context (builtA cfgA)))"
    "''ext1'' \<in> set (require (suite_context (builtA cfgA)))"
    "extensions (suite_context (builtA cfgA)) ''ext1'' = Some ''instance of ext1''"
    "extensions_get loaderA ''ext2'' = Inr ''instance of ext2''"
    "fst (build loaderA None None None mountedA) = None"
    "''ext2'' \<notin> set (require (suite_context mountedA))"
    "''ext1'' \<in> set (require (suite_context mountedA))"
    by code_simp+
  from ext_cases [of suiteA "''ext1''" loaderA None None None mountedA]
    ext_cases [of "builtA cfgA" "''ext2''" loaderA None None None mountedA]
    ext_cases [of "builtA cfgA" "''ext1''" loaderA None None None mountedA]
  show ?thesis by (simp add: v)
qed

end
